theory Spec2Isabelle
  imports Complex_Main "HOL-Library.Multiset"
begin

section \<open>Data model: trip tables\<close>

text \<open>
  A pandas DataFrame is modelled as the list of its rows, in row order. Every column
  is nullable: \<open>None\<close> stands for the missing value of the column (NaN, NaT or None).
  A comparison with a missing value is false, as in pandas. The float64 columns are
  exact rationals; timestamps are integers counting microseconds since the epoch, and
  a calendar date is the number of days since the epoch.

  The columns \<open>extra\<close>, \<open>mta_tax\<close>, \<open>tolls_amount\<close> and \<open>total_amount\<close> of the parquet
  file and the derived column \<open>month\<close> are carried along by the program but read by
  none of the operations below; they are left out of the row type.
\<close>

type_synonym timestamp = int
type_synonym pydate = int

record raw_trip =
  tpep_pickup_datetime :: "timestamp option"
  tpep_dropoff_datetime :: "timestamp option"
  passenger_count :: "rat option"
  trip_distance :: "rat option"
  fare_amount :: "rat option"
  tip_amount :: "rat option"
  payment_type :: "int option"
  PULocationID :: int
  DOLocationID :: int

text \<open>The columns added by \<open>DataLoader._clean_taxi_data\<close>.\<close>

record clean_trip = raw_trip +
  date :: "pydate option"
  hour :: "int option"
  day_of_week :: "string option"
  trip_duration_minutes :: "rat option"
  tip_percentage :: "rat option"
  price_per_mile :: "rat option"
  payment_type_name :: "string option"

text \<open>JSON scalars, as the zone file carries them; \<open>JNull\<close> is Python's \<open>None\<close>.\<close>

datatype json = JNull | JInt int | JStr string

text \<open>The columns added by \<open>DataLoader.enrich_taxi_data_with_zones\<close>; they hold what the
  zone lookup holds.\<close>

record zoned_trip = clean_trip +
  pickup_zone :: json
  pickup_borough :: json
  dropoff_zone :: json
  dropoff_borough :: json

text \<open>The columns added by the left join of \<open>DataLoader.merge_weather_data\<close>.\<close>

record trip = zoned_trip +
  temperature :: "rat option"
  is_rainy :: "bool option"
  precipitation_inches :: "rat option"


section \<open>Cleaning: \<open>DataLoader._clean_taxi_data\<close>\<close>

text \<open>The range test \<open>(x > 0) & (x <= hi)\<close> on a nullable numeric column.\<close>

definition in_range :: "rat option \<Rightarrow> rat \<Rightarrow> bool" where
  "in_range x hi =
     ((case x of None \<Rightarrow> False | Some v \<Rightarrow> v > 0) \<and>
      (case x of None \<Rightarrow> False | Some v \<Rightarrow> v \<le> hi))"

text \<open>Rounding to the nearest integer, ties to the even one, and to a number of decimals.\<close>

definition rint :: "rat \<Rightarrow> int" where
  "rint x =
     (let f = \<lfloor>x\<rfloor>; d = x - of_int f
      in if d < 1 / 2 then f else if d > 1 / 2 then f + 1 else if even f then f else f + 1)"

definition round1 :: "rat \<Rightarrow> rat" where
  "round1 x = of_int (rint (x * 10)) / 10"

definition round2 :: "rat \<Rightarrow> rat" where
  "round2 x = of_int (rint (x * 100)) / 100"

text \<open>The accessors \<open>.dt.date\<close>, \<open>.dt.hour\<close> and \<open>.dt.day_name()\<close>; day 0 of the epoch is a
  Thursday.\<close>

definition dt_date :: "timestamp \<Rightarrow> pydate" where
  "dt_date t = t div 86400000000"

definition dt_hour :: "timestamp \<Rightarrow> int" where
  "dt_hour t = (t mod 86400000000) div 3600000000"

definition day_names :: "string list" where
  "day_names =
     [''Monday'', ''Tuesday'', ''Wednesday'', ''Thursday'', ''Friday'', ''Saturday'', ''Sunday'']"

definition day_name :: "pydate \<Rightarrow> string" where
  "day_name d = day_names ! nat ((d + 3) mod 7)"

text \<open>Minutes between two timestamps: \<open>total_seconds() / 60\<close>.\<close>

definition minutes_between :: "timestamp \<Rightarrow> timestamp \<Rightarrow> rat" where
  "minutes_between pickup dropoff = of_int (dropoff - pickup) / 1000000 / 60"

text \<open>Division of two nullable columns. A zero divisor gives no finite number; it
  cannot occur where the program divides, after the outlier filters.\<close>

definition col_div :: "rat option \<Rightarrow> rat option \<Rightarrow> rat option" where
  "col_div a b =
     (case (a, b) of
        (Some x, Some y) \<Rightarrow> if y = 0 then None else Some (x / y)
      | _ \<Rightarrow> None)"

definition payment_map :: "int \<Rightarrow> string option" where
  "payment_map =
     map_of [(1, ''Credit Card''), (2, ''Cash''), (3, ''No Charge''), (4, ''Dispute''),
             (5, ''Unknown'')]"

text \<open>\<open>Series.map(dict)\<close> leaves a missing value where the key is not in the dict;
  \<open>fillna\<close> replaces the missing values.\<close>

definition series_map :: "('a \<Rightarrow> 'b option) \<Rightarrow> 'a option \<Rightarrow> 'b option" where
  "series_map m x = (case x of None \<Rightarrow> None | Some k \<Rightarrow> m k)"

definition fillna :: "'a \<Rightarrow> 'a option \<Rightarrow> 'a option" where
  "fillna v x = (case x of None \<Rightarrow> Some v | Some y \<Rightarrow> Some y)"

text \<open>The derived columns of one row.\<close>

definition add_features :: "raw_trip \<Rightarrow> clean_trip" where
  "add_features r =
     raw_trip.extend r (clean_trip.fields
       (map_option dt_date (tpep_pickup_datetime r))
       (map_option dt_hour (tpep_pickup_datetime r))
       (map_option (\<lambda>t. day_name (dt_date t)) (tpep_pickup_datetime r))
       (case (tpep_pickup_datetime r, tpep_dropoff_datetime r) of
          (Some p, Some d) \<Rightarrow> Some (round2 (minutes_between p d))
        | _ \<Rightarrow> None)
       (map_option (\<lambda>q. round2 (q * 100)) (col_div (tip_amount r) (fare_amount r)))
       (map_option round2 (col_div (fare_amount r) (trip_distance r)))
       (fillna ''Unknown'' (series_map payment_map (payment_type r))))"

definition clean_taxi_data :: "raw_trip list \<Rightarrow> clean_trip list" where
  "clean_taxi_data df0 =
     (let df = filter (\<lambda>r. tpep_pickup_datetime r \<noteq> None \<and> tpep_dropoff_datetime r \<noteq> None) df0;
          df = filter (\<lambda>r. in_range (fare_amount r) 300) df;
          df = filter (\<lambda>r. in_range (trip_distance r) 100) df;
          df = filter (\<lambda>r. in_range (passenger_count r) 8) df;
          df = map add_features df;
          df = filter (\<lambda>r. in_range (trip_duration_minutes r) 480) df
      in df)"


section \<open>Zones: \<open>create_zone_lookup\<close> and \<open>enrich_taxi_data_with_zones\<close>\<close>

text \<open>
  A dict with string keys is a map; the keys of the lookup dict are JSON scalars. A
  feature of the GeoJSON either has a \<open>properties\<close> object, has \<open>null\<close> there, or lacks
  the member.
\<close>

type_synonym pydict = "string \<Rightarrow> json option"

datatype feature = Properties pydict | NullProperties | NoProperties

datatype py_error = KeyError | AttributeError | OSError | RequestException | ParseError

type_synonym zone_dict = "json \<Rightarrow> pydict option"

text \<open>\<open>d.get(key, default)\<close>.\<close>

definition dict_get :: "('k \<Rightarrow> 'v option) \<Rightarrow> 'k \<Rightarrow> 'v \<Rightarrow> 'v" where
  "dict_get d k dflt = (case d k of None \<Rightarrow> dflt | Some v \<Rightarrow> v)"

text \<open>The loop over \<open>geojson['features']\<close>; \<open>feature['properties']\<close> raises when the member is
  missing, and \<open>props.get\<close> raises on \<open>None\<close>.\<close>

fun zone_entries :: "feature list \<Rightarrow> zone_dict \<Rightarrow> py_error + zone_dict" where
  "zone_entries [] zl = Inr zl"
| "zone_entries (NoProperties # fs) zl = Inl KeyError"
| "zone_entries (NullProperties # fs) zl = Inl AttributeError"
| "zone_entries (Properties props # fs) zl =
     (let zone_id = dict_get props ''zone_id'' JNull;
          zone_name = dict_get props ''zone_name'' (JStr ''Unknown'');
          borough = dict_get props ''borough'' (JStr ''Unknown'')
      in zone_entries fs
           (zl(zone_id \<mapsto> [''zone_name'' \<mapsto> zone_name, ''borough'' \<mapsto> borough])))"

definition create_zone_lookup :: "feature list option \<Rightarrow> py_error + zone_dict" where
  "create_zone_lookup gj =
     (case gj of None \<Rightarrow> Inr Map.empty | Some features \<Rightarrow> zone_entries features Map.empty)"

text \<open>\<open>zone_lookup.get(x, {}).get(field, 'Unknown')\<close>.\<close>

definition zone_field :: "zone_dict \<Rightarrow> string \<Rightarrow> int \<Rightarrow> json" where
  "zone_field zl field x = dict_get (dict_get zl (JInt x) Map.empty) field (JStr ''Unknown'')"

definition enrich_row :: "zone_dict \<Rightarrow> clean_trip \<Rightarrow> zoned_trip" where
  "enrich_row zl r =
     clean_trip.extend r (zoned_trip.fields
       (zone_field zl ''zone_name'' (PULocationID r))
       (zone_field zl ''borough'' (PULocationID r))
       (zone_field zl ''zone_name'' (DOLocationID r))
       (zone_field zl ''borough'' (DOLocationID r)))"

definition enrich_taxi_data_with_zones :: "clean_trip list \<Rightarrow> zone_dict \<Rightarrow> zoned_trip list" where
  "enrich_taxi_data_with_zones df zl = map (enrich_row zl) df"


section \<open>Weather: \<open>generate_synthetic_weather\<close> and \<open>merge_weather_data\<close>\<close>

text \<open>
  The generator draws from the unseeded global random state. What one iteration of
  its loop draws is a \<open>weather_draw\<close>: the simulated temperature (seasonal base plus
  normal noise), the uniform number compared with 0.15, and the exponential number
  used on a rainy day. The random state is the stream of the draws still to come.
\<close>

record weather_draw =
  temp :: rat
  uniform :: rat
  exponential :: rat

record weather_row =
  wx_date :: "pydate option"
  wx_temperature :: "rat option"
  wx_is_rainy :: bool
  wx_precipitation_inches :: rat

text \<open>\<open>Series.unique()\<close>: the distinct values in order of first appearance.\<close>

definition unique :: "'a list \<Rightarrow> 'a list" where
  "unique xs = rev (remdups (rev xs))"

text \<open>One iteration. A missing date has no day of the year, which leaves the
  temperature missing.\<close>

definition weather_for :: "pydate option \<Rightarrow> weather_draw \<Rightarrow> weather_row" where
  "weather_for d draw =
     (let rainy = (uniform draw < 15 / 100);
          precipitation = (if rainy then exponential draw else 0)
      in \<lparr>wx_date = d,
          wx_temperature = map_option (\<lambda>_. round1 (temp draw)) d,
          wx_is_rainy = rainy,
          wx_precipitation_inches = round2 precipitation\<rparr>)"

definition generate_synthetic_weather ::
  "'a clean_trip_scheme list \<Rightarrow> (nat \<Rightarrow> weather_draw) \<Rightarrow> weather_row list" where
  "generate_synthetic_weather df draws =
     (let dates = unique (map date df)
      in map (\<lambda>i. weather_for (dates ! i) (draws i)) [0..<length dates])"

text \<open>
  The left join on the date. Each taxi row is paired with every weather row of the
  same date, and carries missing weather when there is none. A weather frame built
  from an empty list of records has no columns, so \<open>weather_df['date']\<close> raises.
\<close>

definition with_weather ::
  "zoned_trip \<Rightarrow> rat option \<Rightarrow> bool option \<Rightarrow> rat option \<Rightarrow> trip" where
  "with_weather r t b p = zoned_trip.extend r (trip.fields t b p)"

definition merge_row :: "weather_row list \<Rightarrow> zoned_trip \<Rightarrow> trip list" where
  "merge_row weather_df r =
     (case filter (\<lambda>w. wx_date w = date r) weather_df of
        [] \<Rightarrow> [with_weather r None None None]
      | ms \<Rightarrow> map (\<lambda>w. with_weather r (wx_temperature w) (Some (wx_is_rainy w))
                          (Some (wx_precipitation_inches w))) ms)"

definition merge_weather_data :: "zoned_trip list \<Rightarrow> weather_row list \<Rightarrow> py_error + trip list" where
  "merge_weather_data taxi weather_df =
     (if weather_df = [] then Inl KeyError
      else Inr (concat (map (merge_row weather_df) taxi)))"


section \<open>The dashboard process: frames on a heap\<close>

text \<open>
  DataFrames are objects: a name holds a reference to a frame. The interpreter state
  is a store of frames, the next free address, and the module-level name \<open>taxi_df\<close>
  of \<open>app.py\<close>. Creating a DataFrame writes it at a fresh address.
\<close>

record pystate =
  frames :: "nat \<Rightarrow> trip list"
  next_id :: nat
  taxi_df :: nat

definition new_frame :: "trip list \<Rightarrow> pystate \<Rightarrow> nat \<times> pystate" where
  "new_frame rows st =
     (next_id st, st\<lparr>frames := (frames st)(next_id st := rows), next_id := Suc (next_id st)\<rparr>)"

text \<open>\<open>df.copy()\<close>: a new frame with the same rows.\<close>

definition frame_copy :: "nat \<Rightarrow> pystate \<Rightarrow> nat \<times> pystate" where
  "frame_copy df st = new_frame (frames st df) st"

text \<open>\<open>df[mask]\<close>: a new frame holding the rows of \<open>df\<close> where the mask is true.\<close>

definition getitem_mask :: "(trip \<Rightarrow> bool) \<Rightarrow> nat \<Rightarrow> pystate \<Rightarrow> nat \<times> pystate" where
  "getitem_mask keep df st = new_frame (filter keep (frames st df)) st"


section \<open>The filter callback of \<open>app.py\<close>\<close>

text \<open>
  The value of the weather dropdown is either a string (\<open>'all'\<close>) or a boolean
  (\<open>False\<close> for clear, \<open>True\<close> for rainy).
\<close>

datatype weather_value = WStr string | WBool bool

text \<open>
  The boolean masks, one per filter. \<open>start_date\<close> and \<open>end_date\<close> arrive as ISO dates
  and are compared with the (midnight) timestamps of the \<open>date\<close> column, so the
  comparison is one of day numbers. \<open>hour_range\<close> is the two-element value of the range
  slider.
\<close>

definition date_mask :: "pydate \<Rightarrow> pydate \<Rightarrow> trip \<Rightarrow> bool" where
  "date_mask start_date end_date r =
     ((case date r of None \<Rightarrow> False | Some d \<Rightarrow> d \<ge> start_date) \<and>
      (case date r of None \<Rightarrow> False | Some d \<Rightarrow> d \<le> end_date))"

definition hour_mask :: "int \<times> int \<Rightarrow> trip \<Rightarrow> bool" where
  "hour_mask hour_range r =
     ((case hour r of None \<Rightarrow> False | Some h \<Rightarrow> h \<ge> fst hour_range) \<and>
      (case hour r of None \<Rightarrow> False | Some h \<Rightarrow> h \<le> snd hour_range))"

definition payment_mask :: "string \<Rightarrow> trip \<Rightarrow> bool" where
  "payment_mask payment r = (payment_type_name r = Some payment)"

text \<open>A boolean column never equals a string; a missing value equals nothing.\<close>

definition weather_mask :: "weather_value \<Rightarrow> trip \<Rightarrow> bool" where
  "weather_mask weather r =
     (case weather of WBool b \<Rightarrow> is_rainy r = Some b | WStr s \<Rightarrow> False)"

definition isin_weekend :: "trip \<Rightarrow> bool" where
  "isin_weekend r =
     (case day_of_week r of None \<Rightarrow> False | Some d \<Rightarrow> d \<in> set [''Saturday'', ''Sunday''])"

text \<open>The five filter steps; each one rebinds the local name \<open>df\<close>.\<close>

definition filter_date :: "pydate \<Rightarrow> pydate \<Rightarrow> nat \<Rightarrow> pystate \<Rightarrow> nat \<times> pystate" where
  "filter_date start_date end_date df st = getitem_mask (date_mask start_date end_date) df st"

definition filter_hour :: "int \<times> int \<Rightarrow> nat \<Rightarrow> pystate \<Rightarrow> nat \<times> pystate" where
  "filter_hour hour_range df st = getitem_mask (hour_mask hour_range) df st"

definition filter_payment :: "string \<Rightarrow> nat \<Rightarrow> pystate \<Rightarrow> nat \<times> pystate" where
  "filter_payment payment df st =
     (if payment \<noteq> ''all'' then getitem_mask (payment_mask payment) df st else (df, st))"

definition filter_weather :: "weather_value \<Rightarrow> nat \<Rightarrow> pystate \<Rightarrow> nat \<times> pystate" where
  "filter_weather weather df st =
     (if weather \<noteq> WStr ''all'' then getitem_mask (weather_mask weather) df st else (df, st))"

definition filter_day_type :: "string \<Rightarrow> nat \<Rightarrow> pystate \<Rightarrow> nat \<times> pystate" where
  "filter_day_type day_type df st =
     (if day_type = ''weekday'' then getitem_mask (\<lambda>r. \<not> isin_weekend r) df st
      else if day_type = ''weekend'' then getitem_mask isin_weekend df st
      else (df, st))"

text \<open>
  \<open>update_filtered_data\<close>. The result is the content of the final frame, in row order
  (the program serialises exactly these rows with \<open>to_json(orient='split')\<close>), and the
  interpreter state after the call.
\<close>

definition update_filtered_data ::
  "pydate \<Rightarrow> pydate \<Rightarrow> int \<times> int \<Rightarrow> string \<Rightarrow> weather_value \<Rightarrow> string \<Rightarrow> pystate
     \<Rightarrow> trip list \<times> pystate" where
  "update_filtered_data start_date end_date hour_range payment weather day_type st =
     (let (df, st) = frame_copy (taxi_df st) st;
          (df, st) = filter_date start_date end_date df st;
          (df, st) = filter_hour hour_range df st;
          (df, st) = filter_payment payment df st;
          (df, st) = filter_weather weather df st;
          (df, st) = filter_day_type day_type df st
      in (frames st df, st))"

text \<open>The filter predicates as the specification words them.\<close>

definition spec_date_ok :: "pydate \<Rightarrow> pydate \<Rightarrow> trip \<Rightarrow> bool" where
  "spec_date_ok start_date end_date r =
     (\<exists>d. date r = Some d \<and> start_date \<le> d \<and> d \<le> end_date)"

definition spec_hour_ok :: "int \<times> int \<Rightarrow> trip \<Rightarrow> bool" where
  "spec_hour_ok hour_range r =
     (\<exists>h. hour r = Some h \<and> fst hour_range \<le> h \<and> h \<le> snd hour_range)"

definition spec_payment_ok :: "string \<Rightarrow> trip \<Rightarrow> bool" where
  "spec_payment_ok payment r = (payment = ''all'' \<or> payment_type_name r = Some payment)"

definition spec_weather_ok :: "weather_value \<Rightarrow> trip \<Rightarrow> bool" where
  "spec_weather_ok weather r =
     (weather = WStr ''all'' \<or> (\<exists>b. weather = WBool b \<and> is_rainy r = Some b))"

definition spec_day_ok :: "string \<Rightarrow> trip \<Rightarrow> bool" where
  "spec_day_ok day_type r =
     (if day_type = ''weekday''
        then day_of_week r \<noteq> Some ''Saturday'' \<and> day_of_week r \<noteq> Some ''Sunday''
      else if day_type = ''weekend''
        then day_of_week r = Some ''Saturday'' \<or> day_of_week r = Some ''Sunday''
      else True)"

definition spec_selected ::
  "pydate \<Rightarrow> pydate \<Rightarrow> int \<times> int \<Rightarrow> string \<Rightarrow> weather_value \<Rightarrow> string \<Rightarrow> trip \<Rightarrow> bool" where
  "spec_selected start_date end_date hour_range payment weather day_type r =
     (spec_date_ok start_date end_date r \<and> spec_hour_ok hour_range r \<and>
      spec_payment_ok payment r \<and> spec_weather_ok weather r \<and> spec_day_ok day_type r)"

text \<open>Running a list of filter steps one after the other, each on the frame the last one made.\<close>

fun run_steps :: "(nat \<Rightarrow> pystate \<Rightarrow> nat \<times> pystate) list \<Rightarrow> nat \<Rightarrow> pystate \<Rightarrow> nat \<times> pystate" where
  "run_steps [] df st = (df, st)"
| "run_steps (f # fs) df st = (case f df st of (df', st') \<Rightarrow> run_steps fs df' st')"

definition filter_steps ::
  "pydate \<Rightarrow> pydate \<Rightarrow> int \<times> int \<Rightarrow> string \<Rightarrow> weather_value \<Rightarrow> string
     \<Rightarrow> (nat \<Rightarrow> pystate \<Rightarrow> nat \<times> pystate) list" where
  "filter_steps start_date end_date hour_range payment weather day_type =
     [filter_date start_date end_date, filter_hour hour_range, filter_payment payment,
      filter_weather weather, filter_day_type day_type]"

definition frame_of :: "nat \<times> pystate \<Rightarrow> trip list" where
  "frame_of p = frames (snd p) (fst p)"


section \<open>The chart callbacks of \<open>app.py\<close>\<close>

text \<open>
  \<open>load_filtered_data\<close> builds a new frame from the stored rows (or returns \<open>None\<close>
  when the store is empty) and converts two of its columns in place. Every chart
  callback starts with it and reads only that frame; \<open>update_scatter\<close> also draws a
  sample of 5000 rows into a further frame. The figures the callbacks return come from
  the plotting library and are not modelled; what is modelled is what the callbacks
  do to the store of frames. \<open>sample\<close> stands for \<open>DataFrame.sample\<close> with the fixed
  seed, taken as a parameter.
\<close>

datatype chart =
  Metrics | TimeSeries | Heatmap | WeatherImpact | Scatter | BoroughBoxplot | PaymentBreakdown

definition load_filtered_data :: "trip list option \<Rightarrow> pystate \<Rightarrow> nat option \<times> pystate" where
  "load_filtered_data filtered_json st =
     (case filtered_json of
        None \<Rightarrow> (None, st)
      | Some rows \<Rightarrow> (case new_frame rows st of (df, st') \<Rightarrow> (Some df, st')))"

definition chart_callback ::
  "(nat \<Rightarrow> trip list \<Rightarrow> trip list) \<Rightarrow> chart \<Rightarrow> trip list option \<Rightarrow> pystate \<Rightarrow> pystate" where
  "chart_callback sample c filtered_json st =
     (case load_filtered_data filtered_json st of
        (None, st') \<Rightarrow> st'
      | (Some df, st') \<Rightarrow>
          (if c = Scatter \<and> length (frames st' df) > 5000
           then snd (new_frame (sample 5000 (frames st' df)) st')
           else st'))"

text \<open>A callback invocation, and the run of a sequence of them in the one interpreter.\<close>

datatype callback_event =
  FilterEvent pydate pydate "int \<times> int" string weather_value string
| ChartEvent chart "trip list option"

fun run_callback ::
  "(nat \<Rightarrow> trip list \<Rightarrow> trip list) \<Rightarrow> callback_event \<Rightarrow> pystate \<Rightarrow> pystate" where
  "run_callback sample (FilterEvent s e hr p w dt) st = snd (update_filtered_data s e hr p w dt st)"
| "run_callback sample (ChartEvent c j) st = chart_callback sample c j st"

definition run_callbacks ::
  "(nat \<Rightarrow> trip list \<Rightarrow> trip list) \<Rightarrow> callback_event list \<Rightarrow> pystate \<Rightarrow> pystate" where
  "run_callbacks sample evs st = fold (run_callback sample) evs st"

text \<open>The module-level code of \<open>app.py\<close> binds \<open>taxi_df\<close> to the loaded table, the first
  frame of the process.\<close>

definition app_init :: "trip list \<Rightarrow> pystate" where
  "app_init raw = \<lparr>frames = (\<lambda>_. [])(0 := raw), next_id = 1, taxi_df = 0\<rparr>"

section \<open>Loading: files, network and console\<close>

text \<open>
  The world outside the process: the raw parquet files under \<open>data/raw\<close>, keyed by
  (year, month); the cache files under \<open>data/cache\<close>, keyed by (year, month, sample
  size); whether a file can be opened for writing in each directory; what the two
  servers answer; the random state; the log of HTTP requests issued; and the lines
  printed. A file that exists holds either what its reader expects or something the
  reader fails on. Printed lines are recorded by their fixed text.
\<close>

datatype parquet_file = Parquet "raw_trip list" | NotParquet

datatype parquet_response = PqConnectionError | PqHttpError | PqBody parquet_file | PqBroken

datatype geojson_response =
  GjConnectionError | GjHttpError | GjNotJson | GjNoFeatures | GjBody "feature list"

datatype url = ParquetUrl int int | GeoJsonUrl

record 'agg data_package =
  raw :: "trip list"
  geojson :: "feature list option"
  zone_lookup :: zone_dict
  aggregations :: 'agg

datatype 'agg pickle_file = Pickle "'agg data_package" | NotPickle

record 'agg world =
  raw_files :: "int \<times> int \<Rightarrow> parquet_file option"
  cache_files :: "int \<times> int \<times> nat \<Rightarrow> 'agg pickle_file option"
  raw_writable :: bool
  cache_writable :: bool
  parquet_url :: "int \<times> int \<Rightarrow> parquet_response"
  geojson_url :: geojson_response
  random_state :: "nat \<Rightarrow> weather_draw"
  requests :: "url list"
  stdout :: "string list"

definition print_line :: "string \<Rightarrow> 'agg world \<Rightarrow> 'agg world" where
  "print_line msg w = w\<lparr>stdout := stdout w @ [msg]\<rparr>"

text \<open>The three summary lines (record count, date range, zones covered) that follow
  a completed load.\<close>

definition print_summary :: "'agg world \<Rightarrow> 'agg world" where
  "print_summary w =
     print_line ''  - Zones covered''
       (print_line ''  - Date range'' (print_line ''  - Raw records'' w))"

definition read_parquet :: "parquet_file option \<Rightarrow> py_error + raw_trip list" where
  "read_parquet f =
     (case f of
        Some (Parquet rows) \<Rightarrow> Inr rows
      | Some NotParquet \<Rightarrow> Inl ParseError
      | None \<Rightarrow> Inl OSError)"

text \<open>
  The body of the \<open>try\<close> of \<open>load_taxi_data\<close> up to the raw frame: read the local file
  when it exists, else download it to the local file and read that. A download that
  breaks after the file was opened leaves a partial file behind.
\<close>

definition fetch_parquet :: "int \<Rightarrow> int \<Rightarrow> 'agg world \<Rightarrow> (py_error + raw_trip list) \<times> 'agg world" where
  "fetch_parquet year month w0 =
     (if raw_files w0 (year, month) \<noteq> None then
        (read_parquet (raw_files w0 (year, month)), print_line ''Loading from local cache'' w0)
      else
        (let w = print_line ''Downloading from'' w0;
             w = print_line ''(This is a one-time download, ~50MB)'' w;
             w = w\<lparr>requests := requests w @ [ParquetUrl year month]\<rparr>
         in case parquet_url w (year, month) of
              PqConnectionError \<Rightarrow> (Inl RequestException, w)
            | PqHttpError \<Rightarrow> (Inl RequestException, w)
            | PqBody content \<Rightarrow>
                if \<not> raw_writable w then (Inl OSError, w)
                else
                  (let w = w\<lparr>raw_files := (raw_files w)((year, month) \<mapsto> content)\<rparr>;
                       w = print_line ''Downloaded to'' w
                   in (read_parquet (Some content), w))
            | PqBroken \<Rightarrow>
                if \<not> raw_writable w then (Inl OSError, w)
                else (Inl RequestException,
                      w\<lparr>raw_files := (raw_files w)((year, month) \<mapsto> NotParquet)\<rparr>)))"

text \<open>\<open>load_taxi_data\<close>; \<open>sample\<close> stands for \<open>DataFrame.sample\<close> with the fixed seed. Any
  exception is caught, reported, and answered with an empty frame.\<close>

definition load_taxi_data ::
  "int \<Rightarrow> int \<Rightarrow> nat \<Rightarrow> (nat \<Rightarrow> raw_trip list \<Rightarrow> raw_trip list) \<Rightarrow> 'agg world
     \<Rightarrow> clean_trip list \<times> 'agg world" where
  "load_taxi_data year month sample_size sample w0 =
     (case fetch_parquet year month (print_line ''Loading NYC Taxi Data'' w0) of
        (Inl e, w) \<Rightarrow> ([], print_line ''Error loading taxi data'' w)
      | (Inr df0, w) \<Rightarrow>
          (let df = (if length df0 > sample_size then sample sample_size df0 else df0);
               df = clean_taxi_data df
           in (df, print_line ''Loaded taxi records'' w)))"

definition load_nyc_zones_geojson :: "'agg world \<Rightarrow> feature list option \<times> 'agg world" where
  "load_nyc_zones_geojson w0 =
     (let w = print_line ''Loading NYC Taxi Zones GeoJSON...'' w0;
          w = w\<lparr>requests := requests w @ [GeoJsonUrl]\<rparr>
      in case geojson_url w of
           GjBody features \<Rightarrow> (Some features, print_line ''Loaded zones'' w)
         | _ \<Rightarrow> (None, print_line ''Error loading GeoJSON'' w))"

text \<open>
  The part of \<open>load_all_data\<close> from its comment "Download and process data" to its end:
  load, enrich, add weather, aggregate, write the cache file, return the dict.
  \<open>create_aggregations\<close> computes five group-by summaries of the merged table; it is a
  function of that table alone, no property below depends on the summaries, and it
  is taken as a parameter. An exception that nothing catches ends the call with
  \<open>Inl\<close>; a failure to write the cache file is caught and reported.
\<close>

definition download_and_process ::
  "int \<Rightarrow> int \<Rightarrow> nat \<Rightarrow> (nat \<Rightarrow> raw_trip list \<Rightarrow> raw_trip list) \<Rightarrow> (trip list \<Rightarrow> 'agg)
     \<Rightarrow> 'agg world \<Rightarrow> (py_error + 'agg data_package option) \<times> 'agg world" where
  "download_and_process year month sample_size sample create_aggregations w0 =
     (case load_taxi_data year month sample_size sample w0 of (cleaned, w1) \<Rightarrow>
      if cleaned = [] then (Inr None, print_line ''Failed to load taxi data'' w1)
      else
       (case load_nyc_zones_geojson w1 of (gj, w2) \<Rightarrow>
        (case create_zone_lookup gj of
           Inl e \<Rightarrow> (Inl e, w2)
         | Inr zl \<Rightarrow>
            (let taxi = enrich_taxi_data_with_zones cleaned zl;
                 w3 = print_line ''Generating synthetic weather patterns...'' w2;
                 weather_df = generate_synthetic_weather taxi (random_state w3);
                 w4 = w3\<lparr>random_state := (\<lambda>i. random_state w3 (i + length weather_df))\<rparr>;
                 w5 = print_line ''Generated weather data'' w4
             in case merge_weather_data taxi weather_df of
                  Inl e \<Rightarrow> (Inl e, w5)
                | Inr merged \<Rightarrow>
                   (let w6 = print_line ''Creating aggregated datasets...'' w5;
                        agg_data = create_aggregations merged;
                        w7 = print_line ''Created aggregated datasets'' w6;
                        w8 = print_summary (print_line ''Data loading complete!'' w7);
                        data = \<lparr>raw = merged, geojson = gj, zone_lookup = zl,
                                aggregations = agg_data\<rparr>;
                        w9 = print_line ''Saving data to cache...'' w8;
                        w10 = (if cache_writable w9
                               then print_line ''Data cached to''
                                      (w9\<lparr>cache_files := (cache_files w9)
                                             ((year, month, sample_size) \<mapsto> Pickle data)\<rparr>)
                               else print_line ''Failed to save cache'' w9)
                    in (Inr (Some data), w10))))))"

text \<open>\<open>load_all_data\<close>: the cache read, and the fallback to the part above.\<close>

definition load_all_data ::
  "int \<Rightarrow> int \<Rightarrow> nat \<Rightarrow> bool \<Rightarrow> (nat \<Rightarrow> raw_trip list \<Rightarrow> raw_trip list) \<Rightarrow> (trip list \<Rightarrow> 'agg)
     \<Rightarrow> 'agg world \<Rightarrow> (py_error + 'agg data_package option) \<times> 'agg world" where
  "load_all_data year month sample_size use_cache sample create_aggregations w0 =
     (if use_cache \<and> cache_files w0 (year, month, sample_size) \<noteq> None then
        (let w = print_line ''Loading data from cache...'' w0
         in case cache_files w0 (year, month, sample_size) of
              Some (Pickle data) \<Rightarrow>
                (Inr (Some data),
                 print_summary (print_line ''Data loaded from cache successfully!'' w))
            | _ \<Rightarrow>
                download_and_process year month sample_size sample create_aggregations
                  (print_line ''Cache load failed. Downloading fresh data...'' w))
      else download_and_process year month sample_size sample create_aggregations w0)"


text \<open>
  The module-level code of \<open>app.py\<close> up to the layout: load the data with the default
  \<open>use_cache\<close>, exit with status 1 when the loader returns \<open>None\<close>, else bind the globals
  and go on to serve.
\<close>

datatype process = Crashed py_error | Exited int | Serving pystate

definition startup ::
  "(nat \<Rightarrow> raw_trip list \<Rightarrow> raw_trip list) \<Rightarrow> (trip list \<Rightarrow> 'agg) \<Rightarrow> 'agg world
     \<Rightarrow> process \<times> 'agg world" where
  "startup sample create_aggregations w0 =
     (case load_all_data 2023 1 50000 True sample create_aggregations
             (print_line ''Loading data...'' w0) of
        (Inl e, w) \<Rightarrow> (Crashed e, w)
      | (Inr None, w) \<Rightarrow> (Exited 1, print_line ''Failed to load data. Exiting.'' w)
      | (Inr (Some data_package), w) \<Rightarrow>
          (Serving (app_init (raw data_package)), print_line ''Data loaded successfully!'' w))"

section \<open>Example data\<close>

text \<open>
  A small parquet table (the third row has a zero fare), a stream of weather draws
  (only the second day is rainy), and the table the pipeline makes of them with an
  empty zone lookup: a Sunday trip at 10h, a Monday trip at 8h and a Saturday trip at
  20h. The properties below are each instantiated on them.
\<close>

definition example_raw :: "raw_trip list" where
  "example_raw =
     [\<lparr>tpep_pickup_datetime = Some 1672567200000000, tpep_dropoff_datetime = Some 1672568100000000,
       passenger_count = Some 1, trip_distance = Some (5 / 2), fare_amount = Some (25 / 2),
       tip_amount = Some (5 / 2), payment_type = Some 1, PULocationID = 161, DOLocationID = 237\<rparr>,
      \<lparr>tpep_pickup_datetime = Some 1672648200000000, tpep_dropoff_datetime = Some 1672649400000000,
       passenger_count = Some 2, trip_distance = Some 5, fare_amount = Some 20,
       tip_amount = Some 0, payment_type = Some 2, PULocationID = 132, DOLocationID = 48\<rparr>,
      \<lparr>tpep_pickup_datetime = Some 1672700400000000, tpep_dropoff_datetime = Some 1672701000000000,
       passenger_count = Some 1, trip_distance = Some 3, fare_amount = Some 0,
       tip_amount = Some 0, payment_type = Some 1, PULocationID = 48, DOLocationID = 161\<rparr>,
      \<lparr>tpep_pickup_datetime = Some 1673121600000000, tpep_dropoff_datetime = Some 1673122200000000,
       passenger_count = Some 3, trip_distance = Some (6 / 5), fare_amount = Some 8,
       tip_amount = Some 1, payment_type = Some 0, PULocationID = 237, DOLocationID = 132\<rparr>]"

definition example_draws :: "nat \<Rightarrow> weather_draw" where
  "example_draws i =
     \<lparr>temp = 35 + of_nat i, uniform = (if i = 1 then 1 / 10 else 1 / 2), exponential = 3 / 10\<rparr>"

definition example_trips :: "trip list" where
  "example_trips =
     (case merge_weather_data (enrich_taxi_data_with_zones (clean_taxi_data example_raw) Map.empty)
             (generate_synthetic_weather (clean_taxi_data example_raw) example_draws) of
        Inr t \<Rightarrow> t | Inl e \<Rightarrow> [])"


text \<open>A zone file with one zone, and a world with no files on disk in which both
  servers answer and both directories are writable.\<close>

definition example_features :: "feature list" where
  "example_features =
     [Properties [''zone_id'' \<mapsto> JInt 132, ''zone_name'' \<mapsto> JStr ''JFK Airport'',
                  ''borough'' \<mapsto> JStr ''Queens'']]"

definition example_world :: "nat world" where
  "example_world =
     \<lparr>raw_files = (\<lambda>_. None), cache_files = (\<lambda>_. None), raw_writable = True,
      cache_writable = True, parquet_url = (\<lambda>_. PqBody (Parquet example_raw)),
      geojson_url = GjBody example_features, random_state = example_draws,
      requests = [], stdout = []\<rparr>"


section \<open>Auxiliary predicates\<close>

text \<open>Each step leaves in its result frame the rows of its argument frame that pass a
  predicate of the step (the constant true predicate when the step is switched off).\<close>

definition step_pred ::
  "(nat \<Rightarrow> pystate \<Rightarrow> nat \<times> pystate) \<Rightarrow> (trip \<Rightarrow> bool) \<Rightarrow> bool" where
  "step_pred f P = (\<forall>df st. frame_of (f df st) = filter P (frames st df))"


text \<open>The rows that pass the predicate of every step of a set of steps.\<close>

definition all_steps_ok :: "(nat \<Rightarrow> pystate \<Rightarrow> nat \<times> pystate) set \<Rightarrow> trip \<Rightarrow> bool" where
  "all_steps_ok F r = (\<forall>f\<in>F. \<forall>P. step_pred f P \<longrightarrow> P r)"

text \<open>The global name refers to an allocated frame; and the relation between two states
  of the interpreter that the name and the frame it refers to are the same in both.\<close>

definition heap_ok :: "pystate \<Rightarrow> bool" where
  "heap_ok st = (taxi_df st < next_id st)"

definition same_taxi_df :: "pystate \<Rightarrow> pystate \<Rightarrow> bool" where
  "same_taxi_df st st' =
     (taxi_df st' = taxi_df st \<and> frames st' (taxi_df st) = frames st (taxi_df st) \<and> heap_ok st')"


text \<open>The value ranges of a cleaned row.\<close>

definition positive_upto :: "rat option \<Rightarrow> rat \<Rightarrow> bool" where
  "positive_upto x hi = (case x of None \<Rightarrow> False | Some v \<Rightarrow> 0 < v \<and> v \<le> hi)"

definition valid_trip :: "'a clean_trip_scheme \<Rightarrow> bool" where
  "valid_trip r =
     (tpep_pickup_datetime r \<noteq> None \<and> tpep_dropoff_datetime r \<noteq> None \<and>
      positive_upto (fare_amount r) 300 \<and> positive_upto (trip_distance r) 100 \<and>
      positive_upto (passenger_count r) 8 \<and> positive_upto (trip_duration_minutes r) 480)"

text \<open>Two worlds that differ at most in the cache files, the writability of the cache
  directory, the request log and the console.\<close>

definition agree :: "'agg world \<Rightarrow> 'agg world \<Rightarrow> bool" where
  "agree w w' =
     (raw_files w = raw_files w' \<and> parquet_url w = parquet_url w' \<and>
      raw_writable w = raw_writable w' \<and> geojson_url w = geojson_url w' \<and>
      random_state w = random_state w')"

text \<open>A network or parse failure of the parquet load: the local file exists and is
  not a parquet file, or there is none and the request fails, breaks off, or brings
  something that is not a parquet file.\<close>

definition parquet_load_fails :: "'agg world \<Rightarrow> int \<Rightarrow> int \<Rightarrow> bool" where
  "parquet_load_fails w year month =
     (case raw_files w (year, month) of
        Some f \<Rightarrow> f = NotParquet
      | None \<Rightarrow>
          (case parquet_url w (year, month) of
             PqBody f \<Rightarrow> f = NotParquet
           | _ \<Rightarrow> True))"


text \<open>The tail of \<open>download_and_process\<close> once the taxi table is loaded and not empty and
  the zone lookup is built: on a table that is not empty the join does not raise.\<close>

definition processed ::
  "int \<Rightarrow> int \<Rightarrow> nat \<Rightarrow> (trip list \<Rightarrow> 'agg) \<Rightarrow> clean_trip list \<Rightarrow> feature list option \<Rightarrow> zone_dict
     \<Rightarrow> 'agg world \<Rightarrow> (py_error + 'agg data_package option) \<times> 'agg world" where
  "processed year month sample_size create_aggregations cleaned gj zl w2 =
     (let taxi = enrich_taxi_data_with_zones cleaned zl;
          weather_df = generate_synthetic_weather taxi (random_state w2);
          merged = concat (map (merge_row weather_df) taxi);
          data = \<lparr>raw = merged, geojson = gj, zone_lookup = zl,
                  aggregations = create_aggregations merged\<rparr>;
          w5 = print_line ''Generated weather data''
                 ((print_line ''Generating synthetic weather patterns...'' w2)
                    \<lparr>random_state := (\<lambda>i. random_state w2 (i + length weather_df))\<rparr>);
          w9 = print_line ''Saving data to cache...''
                 (print_summary
                   (print_line ''Data loading complete!''
                     (print_line ''Created aggregated datasets''
                       (print_line ''Creating aggregated datasets...'' w5))))
      in (Inr (Some data),
          if cache_writable w2
          then print_line ''Data cached to''
                 (w9\<lparr>cache_files := (cache_files w2)((year, month, sample_size) \<mapsto> Pickle data)\<rparr>)
          else print_line ''Failed to save cache'' w9))"

text \<open>Every cache file that unpickles holds a table of rows within the value ranges.\<close>

definition cache_valid :: "'agg world \<Rightarrow> bool" where
  "cache_valid w =
     (\<forall>k d. cache_files w k = Some (Pickle d) \<longrightarrow> (\<forall>r\<in>set (raw d). valid_trip r))"

text \<open>The outcomes told apart: the process serves; the loader returned a data package.\<close>

definition serving :: "process \<Rightarrow> bool" where
  "serving p = (case p of Serving st \<Rightarrow> True | _ \<Rightarrow> False)"

definition loaded :: "py_error + 'agg data_package option \<Rightarrow> bool" where
  "loaded res = (case res of Inr (Some d) \<Rightarrow> True | _ \<Rightarrow> False)"


text \<open>The trip records the source makes available to a load: those of the local raw
  file when there is one, else those the server sends, when they can be written to
  the local file.\<close>

definition source_table :: "'agg world \<Rightarrow> int \<Rightarrow> int \<Rightarrow> raw_trip list option" where
  "source_table w year month =
     (case raw_files w (year, month) of
        Some (Parquet rows) \<Rightarrow> Some rows
      | Some NotParquet \<Rightarrow> None
      | None \<Rightarrow>
          (case parquet_url w (year, month) of
             PqBody (Parquet rows) \<Rightarrow> if raw_writable w then Some rows else None
           | _ \<Rightarrow> None))"


section \<open>Properties of the filter callback\<close>

lemma frame_of_new_frame: "frame_of (new_frame rows st) = rows"
  by (simp add: frame_of_def new_frame_def)

lemma frame_of_getitem_mask: "frame_of (getitem_mask m df st) = filter m (frames st df)"
  by (simp add: getitem_mask_def frame_of_new_frame)

lemma step_pred_date:
  "step_pred (filter_date s e) (spec_date_ok s e)"
proof -
  have "date_mask s e = spec_date_ok s e"
    by (auto simp: date_mask_def spec_date_ok_def fun_eq_iff split: option.splits)
  then show ?thesis
    by (simp add: step_pred_def filter_date_def frame_of_getitem_mask)
qed

lemma step_pred_hour:
  "step_pred (filter_hour hr) (spec_hour_ok hr)"
proof -
  have "hour_mask hr = spec_hour_ok hr"
    by (auto simp: hour_mask_def spec_hour_ok_def fun_eq_iff split: option.splits)
  then show ?thesis
    by (simp add: step_pred_def filter_hour_def frame_of_getitem_mask)
qed

lemma frame_of_pair: "frame_of (df, st) = frames st df"
  by (simp add: frame_of_def)

lemma step_pred_payment:
  "step_pred (filter_payment p) (spec_payment_ok p)"
proof (cases "p = ''all''")
  case True
  then show ?thesis
    by (simp add: step_pred_def filter_payment_def frame_of_pair spec_payment_ok_def)
next
  case False
  then have "payment_mask p = spec_payment_ok p"
    by (auto simp: payment_mask_def spec_payment_ok_def fun_eq_iff)
  with False show ?thesis
    by (simp add: step_pred_def filter_payment_def frame_of_getitem_mask)
qed

lemma step_pred_weather:
  "step_pred (filter_weather w) (spec_weather_ok w)"
proof (cases "w = WStr ''all''")
  case True
  then show ?thesis
    by (simp add: step_pred_def filter_weather_def frame_of_pair spec_weather_ok_def)
next
  case False
  then have "weather_mask w = spec_weather_ok w"
    by (auto simp: weather_mask_def spec_weather_ok_def fun_eq_iff split: weather_value.splits)
  with False show ?thesis
    by (simp add: step_pred_def filter_weather_def frame_of_getitem_mask)
qed

lemma isin_weekend_iff:
  "isin_weekend r \<longleftrightarrow> day_of_week r = Some ''Saturday'' \<or> day_of_week r = Some ''Sunday''"
  by (auto simp: isin_weekend_def split: option.splits)

lemma step_pred_day_type:
  "step_pred (filter_day_type dt) (spec_day_ok dt)"
proof -
  consider (wd) "dt = ''weekday''" | (we) "dt \<noteq> ''weekday''" "dt = ''weekend''"
    | (other) "dt \<noteq> ''weekday''" "dt \<noteq> ''weekend''"
    by blast
  then show ?thesis
  proof cases
    case wd
    then have "(\<lambda>r. \<not> isin_weekend r) = spec_day_ok dt"
      by (auto simp: isin_weekend_iff spec_day_ok_def fun_eq_iff)
    with wd show ?thesis
      by (simp add: step_pred_def filter_day_type_def frame_of_getitem_mask)
  next
    case we
    then have "isin_weekend = spec_day_ok dt"
      by (auto simp: isin_weekend_iff spec_day_ok_def fun_eq_iff)
    with we show ?thesis
      by (simp add: step_pred_def filter_day_type_def frame_of_getitem_mask)
  next
    case other
    then have "spec_day_ok dt = (\<lambda>r. True)"
      by (auto simp: spec_day_ok_def fun_eq_iff)
    with other show ?thesis
      by (simp add: step_pred_def filter_day_type_def frame_of_pair)
  qed
qed

lemma step_pred_unique:
  assumes "step_pred f P" "step_pred f Q"
  shows "P = Q"
proof
  fix r
  define st where "st = \<lparr>frames = (\<lambda>_. [r]), next_id = 0, taxi_df = 0\<rparr>"
  from assms have "filter P (frames st 0) = filter Q (frames st 0)"
    unfolding step_pred_def by metis
  then have "filter P [r] = filter Q [r]"
    by (simp add: st_def)
  then show "P r = Q r"
    by (cases "P r"; cases "Q r") simp_all
qed

lemma run_steps_filter:
  "\<forall>f\<in>set fs. \<exists>P. step_pred f P \<Longrightarrow>
   frame_of (run_steps fs df st) = filter (all_steps_ok (set fs)) (frames st df)"
proof (induction fs arbitrary: df st)
  case Nil
  then show ?case by (simp add: frame_of_pair all_steps_ok_def)
next
  case (Cons f fs)
  then obtain P where P: "step_pred f P" by auto
  obtain df' st' where f: "f df st = (df', st')" by (cases "f df st")
  from P f have fr: "frames st' df' = filter P (frames st df)"
    unfolding step_pred_def by (metis frame_of_pair)
  have uniq: "(\<forall>Q. step_pred f Q \<longrightarrow> Q r) \<longleftrightarrow> P r" for r
    using P step_pred_unique by blast
  have "frame_of (run_steps (f # fs) df st) = frame_of (run_steps fs df' st')"
    by (simp add: f)
  also have "\<dots> = filter (all_steps_ok (set fs)) (frames st' df')"
    using Cons by simp
  also have "\<dots> = filter (\<lambda>r. P r \<and> all_steps_ok (set fs) r) (frames st df)"
    by (simp add: fr conj_commute)
  also have "(\<lambda>r. P r \<and> all_steps_ok (set fs) r) = all_steps_ok (set (f # fs))"
    by (auto simp: all_steps_ok_def uniq fun_eq_iff)
  finally show ?case .
qed

lemma filter_steps_preds:
  "\<forall>f\<in>set (filter_steps s e hr p w dt). \<exists>P. step_pred f P"
proof -
  have "\<exists>P. step_pred (filter_date s e) P" using step_pred_date by blast
  moreover have "\<exists>P. step_pred (filter_hour hr) P" using step_pred_hour by blast
  moreover have "\<exists>P. step_pred (filter_payment p) P" using step_pred_payment by blast
  moreover have "\<exists>P. step_pred (filter_weather w) P" using step_pred_weather by blast
  moreover have "\<exists>P. step_pred (filter_day_type dt) P" using step_pred_day_type by blast
  ultimately show ?thesis by (simp add: filter_steps_def)
qed

lemma run_steps_permutation:
  assumes "mset fs = mset (filter_steps s e hr p w dt)"
  shows "frame_of (run_steps fs df st) = frame_of (run_steps (filter_steps s e hr p w dt) df st)"
proof -
  from assms have eq: "set fs = set (filter_steps s e hr p w dt)"
    by (rule mset_eq_setD)
  with filter_steps_preds have "\<forall>f\<in>set fs. \<exists>P. step_pred f P" by simp
  then show ?thesis
    using filter_steps_preds by (simp add: run_steps_filter eq)
qed

lemma update_filtered_data_run_steps:
  "update_filtered_data s e hr p w dt st =
     (case frame_copy (taxi_df st) st of (df, st') \<Rightarrow>
        (case run_steps (filter_steps s e hr p w dt) df st' of (df'', st'') \<Rightarrow> (frames st'' df'', st'')))"
  by (simp add: update_filtered_data_def filter_steps_def split: prod.splits)

lemma all_steps_ok_filter_steps:
  "all_steps_ok (set (filter_steps s e hr p w dt)) = spec_selected s e hr p w dt"
proof
  fix r
  have u: "(\<forall>Q. step_pred f Q \<longrightarrow> Q r) \<longleftrightarrow> P r" if "step_pred f P" for f P
    using that step_pred_unique by blast
  show "all_steps_ok (set (filter_steps s e hr p w dt)) r = spec_selected s e hr p w dt r"
    by (simp add: all_steps_ok_def filter_steps_def spec_selected_def
        u[OF step_pred_date] u[OF step_pred_hour] u[OF step_pred_payment]
        u[OF step_pred_weather] u[OF step_pred_day_type])
qed

lemma update_filtered_data_filter:
  "fst (update_filtered_data s e hr p w dt st) =
     filter (spec_selected s e hr p w dt) (frames st (taxi_df st))"
proof -
  obtain df st' where c: "frame_copy (taxi_df st) st = (df, st')"
    by (cases "frame_copy (taxi_df st) st")
  then have fr: "frames st' df = frames st (taxi_df st)"
    using frame_of_new_frame[of "frames st (taxi_df st)" st]
    by (simp add: frame_copy_def frame_of_def)
  have "fst (update_filtered_data s e hr p w dt st) =
          frame_of (run_steps (filter_steps s e hr p w dt) df st')"
    by (simp add: update_filtered_data_run_steps c frame_of_def split: prod.splits)
  then show ?thesis
    using filter_steps_preds
    by (simp add: run_steps_filter all_steps_ok_filter_steps fr)
qed

lemma same_taxi_df_refl: "heap_ok st \<Longrightarrow> same_taxi_df st st"
  by (simp add: same_taxi_df_def)

lemma same_taxi_df_trans:
  "same_taxi_df st st' \<Longrightarrow> same_taxi_df st' st'' \<Longrightarrow> same_taxi_df st st''"
  by (simp add: same_taxi_df_def)

lemma new_frame_same: "heap_ok st \<Longrightarrow> same_taxi_df st (snd (new_frame rows st))"
  by (simp add: same_taxi_df_def heap_ok_def new_frame_def)

lemma getitem_mask_same: "heap_ok st \<Longrightarrow> same_taxi_df st (snd (getitem_mask m df st))"
  by (simp add: getitem_mask_def new_frame_same)

lemma step_same:
  assumes "heap_ok st"
  shows "same_taxi_df st (snd (filter_date s e df st))"
    and "same_taxi_df st (snd (filter_hour hr df st))"
    and "same_taxi_df st (snd (filter_payment p df st))"
    and "same_taxi_df st (snd (filter_weather w df st))"
    and "same_taxi_df st (snd (filter_day_type dt df st))"
  using assms
  by (simp_all add: filter_date_def filter_hour_def filter_payment_def filter_weather_def
      filter_day_type_def getitem_mask_same same_taxi_df_refl)

lemma same_heap_ok: "same_taxi_df st st' \<Longrightarrow> heap_ok st'"
  by (simp add: same_taxi_df_def)

lemma run_steps_same:
  assumes "\<forall>f\<in>set fs. \<forall>df st. heap_ok st \<longrightarrow> same_taxi_df st (snd (f df st))"
    and "heap_ok st"
  shows "same_taxi_df st (snd (run_steps fs df st))"
  using assms
proof (induction fs arbitrary: df st)
  case Nil
  then show ?case by (simp add: same_taxi_df_refl)
next
  case (Cons f fs)
  obtain df' st' where f: "f df st = (df', st')" by (cases "f df st")
  with Cons.prems have 1: "same_taxi_df st st'"
    by (metis list.set_intros(1) snd_conv)
  then have "heap_ok st'" by (rule same_heap_ok)
  with Cons have "same_taxi_df st' (snd (run_steps fs df' st'))" by simp
  with 1 show ?case
    by (simp add: f) (rule same_taxi_df_trans)
qed

lemma update_filtered_data_same:
  assumes "heap_ok st"
  shows "same_taxi_df st (snd (update_filtered_data s e hr p w dt st))"
proof -
  obtain df st' where c: "frame_copy (taxi_df st) st = (df, st')"
    by (cases "frame_copy (taxi_df st) st")
  with assms have 1: "same_taxi_df st st'"
    using new_frame_same[of st "frames st (taxi_df st)"] by (simp add: frame_copy_def)
  have "\<forall>f\<in>set (filter_steps s e hr p w dt). \<forall>df st. heap_ok st \<longrightarrow> same_taxi_df st (snd (f df st))"
    by (simp add: filter_steps_def step_same)
  with 1 have "same_taxi_df st' (snd (run_steps (filter_steps s e hr p w dt) df st'))"
    by (intro run_steps_same) (auto dest: same_heap_ok)
  with 1 show ?thesis
    by (simp add: update_filtered_data_run_steps c split: prod.splits)
       (metis same_taxi_df_trans snd_conv)
qed

lemma chart_callback_same:
  assumes "heap_ok st"
  shows "same_taxi_df st (chart_callback sample c j st)"
proof (cases j)
  case None
  with assms show ?thesis
    by (simp add: chart_callback_def load_filtered_data_def same_taxi_df_refl)
next
  case (Some rows)
  obtain df st' where n: "new_frame rows st = (df, st')" by (cases "new_frame rows st")
  with assms have 1: "same_taxi_df st st'"
    using new_frame_same[of st rows] by simp
  then have "heap_ok st'" by (rule same_heap_ok)
  then have "same_taxi_df st' (snd (new_frame (sample 5000 (frames st' df)) st'))"
    by (rule new_frame_same)
  with 1 have "same_taxi_df st (snd (new_frame (sample 5000 (frames st' df)) st'))"
    by (rule same_taxi_df_trans)
  with 1 show ?thesis
    by (simp add: chart_callback_def load_filtered_data_def Some n)
qed

lemma run_callback_same:
  "heap_ok st \<Longrightarrow> same_taxi_df st (run_callback sample ev st)"
  by (cases ev) (simp_all add: update_filtered_data_same chart_callback_same)

lemma run_callbacks_same:
  "heap_ok st \<Longrightarrow> same_taxi_df st (run_callbacks sample evs st)"
proof (induction evs arbitrary: st)
  case Nil
  then show ?case by (simp add: run_callbacks_def same_taxi_df_refl)
next
  case (Cons ev evs)
  then have 1: "same_taxi_df st (run_callback sample ev st)"
    by (simp add: run_callback_same)
  then have "heap_ok (run_callback sample ev st)" by (rule same_heap_ok)
  then have "same_taxi_df (run_callback sample ev st) (run_callbacks sample evs (run_callback sample ev st))"
    by (rule Cons.IH)
  with 1 have "same_taxi_df st (run_callbacks sample evs (run_callback sample ev st))"
    by (rule same_taxi_df_trans)
  then show ?case by (simp add: run_callbacks_def)
qed

text \<open>
  Claim C7. No filter or chart callback mutates the shared trip table: after every
  sequence of callback invocations, started in a state where the global name
  \<open>taxi_df\<close> refers to an allocated frame, the name refers to the same frame and the
  frame holds the same rows.
\<close>

theorem callbacks_keep_taxi_df:
  assumes "taxi_df st < next_id st"
  shows "taxi_df (run_callbacks sample evs st) = taxi_df st \<and>
         frames (run_callbacks sample evs st) (taxi_df st) = frames st (taxi_df st)"
  using run_callbacks_same[of st sample evs] assms
  by (simp add: heap_ok_def same_taxi_df_def)

text \<open>
  Claim C1. For every filter setting and every trip table, the rows that
  \<open>update_filtered_data\<close> returns are exactly the rows of the shared table, in order,
  that satisfy the conjunction of the five predicates as the specification words
  them, and their number is the number of rows of the table that satisfy it.
\<close>

theorem update_filtered_data_selects:
  "fst (update_filtered_data start_date end_date hour_range payment weather day_type st) =
     filter (spec_selected start_date end_date hour_range payment weather day_type)
       (frames st (taxi_df st)) \<and>
   length (fst (update_filtered_data start_date end_date hour_range payment weather day_type st)) =
     card {i. i < length (frames st (taxi_df st)) \<and>
              spec_selected start_date end_date hour_range payment weather day_type
                (frames st (taxi_df st) ! i)}"
  by (simp add: update_filtered_data_filter length_filter_conv_card)

text \<open>
  Claim C2. The five filter steps commute: run in any order, from any frame and in
  particular from the copy of the shared table, they leave the same rows as in the
  order of the source, which are the rows \<open>update_filtered_data\<close> returns. What it
  returns does not depend on the callbacks that ran before it, in whatever order.
\<close>

theorem filters_commute:
  assumes "mset fs = mset (filter_steps start_date end_date hour_range payment weather day_type)"
  shows "frame_of (run_steps fs df st0) =
           frame_of (run_steps (filter_steps start_date end_date hour_range payment weather day_type) df st0) \<and>
         (case frame_copy (taxi_df st) st of (df, st') \<Rightarrow> frame_of (run_steps fs df st')) =
           fst (update_filtered_data start_date end_date hour_range payment weather day_type st) \<and>
         (taxi_df st < next_id st \<longrightarrow>
            fst (update_filtered_data start_date end_date hour_range payment weather day_type
                  (run_callbacks sample evs st)) =
            fst (update_filtered_data start_date end_date hour_range payment weather day_type st))"
proof -
  let ?steps = "filter_steps start_date end_date hour_range payment weather day_type"
  obtain df1 st1 where c: "frame_copy (taxi_df st) st = (df1, st1)"
    by (cases "frame_copy (taxi_df st) st")
  have "frame_of (run_steps fs df1 st1) = frame_of (run_steps ?steps df1 st1)"
    using assms by (rule run_steps_permutation)
  also have "\<dots> = fst (update_filtered_data start_date end_date hour_range payment weather day_type st)"
    by (simp add: update_filtered_data_run_steps c frame_of_def split: prod.splits)
  finally have 2: "(case frame_copy (taxi_df st) st of (df, st') \<Rightarrow> frame_of (run_steps fs df st')) =
      fst (update_filtered_data start_date end_date hour_range payment weather day_type st)"
    by (simp add: c)
  have 1: "frame_of (run_steps fs df st0) = frame_of (run_steps ?steps df st0)"
    using assms by (rule run_steps_permutation)
  have 3: "fst (update_filtered_data start_date end_date hour_range payment weather day_type
                  (run_callbacks sample evs st)) =
           fst (update_filtered_data start_date end_date hour_range payment weather day_type st)"
    if "taxi_df st < next_id st"
  proof -
    from that have "same_taxi_df st (run_callbacks sample evs st)"
      by (simp add: run_callbacks_same heap_ok_def)
    then show ?thesis
      by (simp add: update_filtered_data_filter same_taxi_df_def)
  qed
  from 1 2 3 show ?thesis by blast
qed

lemma mset_filter_split:
  "mset (filter (\<lambda>r. B r \<and> \<not> W r) xs) + mset (filter (\<lambda>r. B r \<and> W r) xs) = mset (filter B xs)"
  by (induction xs) simp_all

lemma set_filter_split:
  "set (filter (\<lambda>r. B r \<and> \<not> W r) xs) \<inter> set (filter (\<lambda>r. B r \<and> W r) xs) = {}"
  "set (filter (\<lambda>r. B r \<and> \<not> W r) xs) \<union> set (filter (\<lambda>r. B r \<and> W r) xs) = set (filter B xs)"
  by auto

lemma spec_day_ok_cases:
  "spec_day_ok ''weekday'' r = (\<not> isin_weekend r)"
  "spec_day_ok ''weekend'' r = isin_weekend r"
  "spec_day_ok ''all'' r = True"
  by (simp_all add: spec_day_ok_def isin_weekend_iff)

lemma spec_selected_day_types:
  "spec_selected s e hr p w ''weekday'' = (\<lambda>r. spec_selected s e hr p w ''all'' r \<and> \<not> isin_weekend r)"
  "spec_selected s e hr p w ''weekend'' = (\<lambda>r. spec_selected s e hr p w ''all'' r \<and> isin_weekend r)"
  by (simp_all add: spec_selected_def spec_day_ok_cases fun_eq_iff)

text \<open>
  Claim C9. With the other filter values fixed, the rows returned for the day type
  \<open>'weekday'\<close> and those returned for \<open>'weekend'\<close> are disjoint, their union is the set of
  rows returned for \<open>'all'\<close>, and so are their multiplicities.
\<close>

theorem day_type_partition:
  "set (fst (update_filtered_data s e hr p w ''weekday'' st)) \<inter>
     set (fst (update_filtered_data s e hr p w ''weekend'' st)) = {} \<and>
   set (fst (update_filtered_data s e hr p w ''weekday'' st)) \<union>
     set (fst (update_filtered_data s e hr p w ''weekend'' st)) =
     set (fst (update_filtered_data s e hr p w ''all'' st)) \<and>
   mset (fst (update_filtered_data s e hr p w ''weekday'' st)) +
     mset (fst (update_filtered_data s e hr p w ''weekend'' st)) =
     mset (fst (update_filtered_data s e hr p w ''all'' st))"
  unfolding update_filtered_data_filter spec_selected_day_types
  by (intro conjI set_filter_split mset_filter_split)


subsection \<open>The filter properties on the example table\<close>

lemma example_weekend_rows:
  "fst (update_filtered_data 19358 19364 (6, 22) ''all'' (WStr ''all'') ''weekend''
          (app_init example_trips)) = [example_trips ! 0, example_trips ! 2]"
  by code_simp

theorem update_filtered_data_selects_witness:
  "filter (spec_selected 19358 19364 (6, 22) ''all'' (WStr ''all'') ''weekend'') example_trips =
     [example_trips ! 0, example_trips ! 2] \<and>
   card {i. i < length example_trips \<and>
            spec_selected 19358 19364 (6, 22) ''all'' (WStr ''all'') ''weekend'' (example_trips ! i)} = 2"
proof -
  let ?st = "app_init example_trips"
  have t: "frames ?st (taxi_df ?st) = example_trips"
    by (simp add: app_init_def)
  note sel = update_filtered_data_selects
          [of 19358 19364 "(6, 22)" "''all''" "WStr ''all''" "''weekend''" ?st, unfolded t]
  have l: "length [example_trips ! 0, example_trips ! 2] = 2"
    by simp
  from sel show ?thesis
    unfolding example_weekend_rows l by (metis (lifting))
qed

theorem filters_commute_witness:
  "mset [filter_day_type ''weekend'', filter_weather (WStr ''all''), filter_hour (6, 22),
         filter_payment ''all'', filter_date 19358 19364] =
     mset (filter_steps 19358 19364 (6, 22) ''all'' (WStr ''all'') ''weekend'') \<and>
   (case frame_copy (taxi_df (app_init example_trips)) (app_init example_trips) of
      (df, st') \<Rightarrow>
        frame_of (run_steps [filter_day_type ''weekend'', filter_weather (WStr ''all''),
                             filter_hour (6, 22), filter_payment ''all'', filter_date 19358 19364]
                    df st')) = [example_trips ! 0, example_trips ! 2]"
proof -
  have m: "mset [filter_day_type ''weekend'', filter_weather (WStr ''all''), filter_hour (6, 22),
         filter_payment ''all'', filter_date 19358 19364] =
     mset (filter_steps 19358 19364 (6, 22) ''all'' (WStr ''all'') ''weekend'')"
    by (simp add: filter_steps_def)
  note c = filters_commute[OF m, of 0 "app_init example_trips" "app_init example_trips"]
  from c[THEN conjunct2, THEN conjunct1] m
  show ?thesis
    by (simp only: example_weekend_rows)
qed

theorem callbacks_keep_taxi_df_witness:
  "taxi_df (app_init example_trips) < next_id (app_init example_trips) \<and>
   frames (run_callbacks (\<lambda>n rows. take n rows)
             [FilterEvent 19358 19364 (6, 22) ''Cash'' (WBool True) ''weekday'',
              ChartEvent Scatter (Some example_trips), ChartEvent Metrics None]
             (app_init example_trips)) 0 = example_trips"
proof -
  have h: "taxi_df (app_init example_trips) < next_id (app_init example_trips)"
    by (simp add: app_init_def)
  from callbacks_keep_taxi_df[OF h] h show ?thesis
    by (simp add: app_init_def)
qed

theorem day_type_partition_witness:
  "set (fst (update_filtered_data 19358 19364 (6, 22) ''all'' (WStr ''all'') ''weekday'' (app_init example_trips))) \<inter>
     {example_trips ! 0, example_trips ! 2} = {} \<and>
   set (fst (update_filtered_data 19358 19364 (6, 22) ''all'' (WStr ''all'') ''weekday'' (app_init example_trips))) \<union>
     {example_trips ! 0, example_trips ! 2} =
     set (fst (update_filtered_data 19358 19364 (6, 22) ''all'' (WStr ''all'') ''all'' (app_init example_trips)))"
  using day_type_partition
          [of 19358 19364 "(6, 22)" "''all''" "WStr ''all''" "app_init example_trips"]
  by (simp only: example_weekend_rows list.set)


section \<open>Properties of cleaning and enrichment\<close>

lemma in_range_positive_upto: "in_range x hi = positive_upto x hi"
  by (simp add: in_range_def positive_upto_def split: option.splits)

lemma add_features_raw [simp]:
  "tpep_pickup_datetime (add_features r) = tpep_pickup_datetime r"
  "tpep_dropoff_datetime (add_features r) = tpep_dropoff_datetime r"
  "passenger_count (add_features r) = passenger_count r"
  "trip_distance (add_features r) = trip_distance r"
  "fare_amount (add_features r) = fare_amount r"
  "tip_amount (add_features r) = tip_amount r"
  "payment_type (add_features r) = payment_type r"
  "PULocationID (add_features r) = PULocationID r"
  "DOLocationID (add_features r) = DOLocationID r"
  by (simp_all add: add_features_def raw_trip.defs clean_trip.defs)

lemma add_features_derived:
  "date (add_features r) = map_option dt_date (tpep_pickup_datetime r)"
  "hour (add_features r) = map_option dt_hour (tpep_pickup_datetime r)"
  "day_of_week (add_features r) = map_option (\<lambda>t. day_name (dt_date t)) (tpep_pickup_datetime r)"
  "payment_type_name (add_features r) = fillna ''Unknown'' (series_map payment_map (payment_type r))"
  by (simp_all add: add_features_def raw_trip.defs clean_trip.defs)

lemma clean_taxi_data_set:
  "set (clean_taxi_data df) =
     {add_features r | r. r \<in> set df \<and>
        tpep_pickup_datetime r \<noteq> None \<and> tpep_dropoff_datetime r \<noteq> None \<and>
        positive_upto (fare_amount r) 300 \<and> positive_upto (trip_distance r) 100 \<and>
        positive_upto (passenger_count r) 8 \<and> positive_upto (trip_duration_minutes (add_features r)) 480}"
  by (auto simp: clean_taxi_data_def in_range_positive_upto)

lemma clean_taxi_data_valid: "r \<in> set (clean_taxi_data df) \<Longrightarrow> valid_trip r"
  by (auto simp: clean_taxi_data_set valid_trip_def)

lemma enrich_row_clean [simp]:
  "tpep_pickup_datetime (enrich_row zl r) = tpep_pickup_datetime r"
  "tpep_dropoff_datetime (enrich_row zl r) = tpep_dropoff_datetime r"
  "passenger_count (enrich_row zl r) = passenger_count r"
  "trip_distance (enrich_row zl r) = trip_distance r"
  "fare_amount (enrich_row zl r) = fare_amount r"
  "PULocationID (enrich_row zl r) = PULocationID r"
  "DOLocationID (enrich_row zl r) = DOLocationID r"
  "date (enrich_row zl r) = date r"
  "trip_duration_minutes (enrich_row zl r) = trip_duration_minutes r"
  "payment_type_name (enrich_row zl r) = payment_type_name r"
  by (simp_all add: enrich_row_def clean_trip.defs zoned_trip.defs)

lemma enrich_row_zones:
  "pickup_zone (enrich_row zl r) = zone_field zl ''zone_name'' (PULocationID r)"
  "pickup_borough (enrich_row zl r) = zone_field zl ''borough'' (PULocationID r)"
  "dropoff_zone (enrich_row zl r) = zone_field zl ''zone_name'' (DOLocationID r)"
  "dropoff_borough (enrich_row zl r) = zone_field zl ''borough'' (DOLocationID r)"
  by (simp_all add: enrich_row_def clean_trip.defs zoned_trip.defs)

lemma with_weather_zoned [simp]:
  "tpep_pickup_datetime (with_weather r t b p) = tpep_pickup_datetime r"
  "tpep_dropoff_datetime (with_weather r t b p) = tpep_dropoff_datetime r"
  "passenger_count (with_weather r t b p) = passenger_count r"
  "trip_distance (with_weather r t b p) = trip_distance r"
  "fare_amount (with_weather r t b p) = fare_amount r"
  "date (with_weather r t b p) = date r"
  "trip_duration_minutes (with_weather r t b p) = trip_duration_minutes r"
  "payment_type_name (with_weather r t b p) = payment_type_name r"
  "temperature (with_weather r t b p) = t"
  "is_rainy (with_weather r t b p) = b"
  "precipitation_inches (with_weather r t b p) = p"
  "zoned_trip.truncate (with_weather r t b p) = r"
  by (simp_all add: with_weather_def zoned_trip.defs trip.defs)

lemma valid_trip_enrich_row: "valid_trip (enrich_row zl r) = valid_trip r"
  by (simp add: valid_trip_def)

lemma valid_trip_with_weather: "valid_trip (with_weather r t b p) = valid_trip r"
  by (simp add: valid_trip_def)

lemma merge_row_valid: "valid_trip r \<Longrightarrow> x \<in> set (merge_row wdf r) \<Longrightarrow> valid_trip x"
  by (auto simp: merge_row_def valid_trip_with_weather split: list.splits)

lemma merge_weather_data_valid:
  assumes "\<forall>r\<in>set df. valid_trip r" "merge_weather_data df wdf = Inr m" "x \<in> set m"
  shows "valid_trip x"
proof -
  from assms(2,3) obtain r where "r \<in> set df" "x \<in> set (merge_row wdf r)"
    by (auto simp: merge_weather_data_def split: if_splits)
  with assms(1) show ?thesis
    using merge_row_valid by blast
qed


lemma payment_name_defined: "payment_type_name (add_features r) \<noteq> None"
  by (simp add: add_features_derived fillna_def split: option.splits)

lemma payment_name_unknown:
  assumes "payment_type r \<notin> {Some 1, Some 2, Some 3, Some 4, Some 5}"
  shows "payment_type_name (add_features r) = Some ''Unknown''"
proof (cases "payment_type r")
  case None
  then show ?thesis
    by (simp add: add_features_derived fillna_def series_map_def)
next
  case (Some k)
  with assms have "payment_map k = None"
    by (simp add: payment_map_def)
  with Some show ?thesis
    by (simp add: add_features_derived fillna_def series_map_def)
qed

lemma zone_field_miss: "zl (JInt x) = None \<Longrightarrow> zone_field zl field x = JStr ''Unknown''"
  by (simp add: zone_field_def dict_get_def)

lemma zone_field_cases:
  "zone_field zl field x = JStr ''Unknown'' \<or>
   (\<exists>d. zl (JInt x) = Some d \<and> d field = Some (zone_field zl field x))"
  by (auto simp: zone_field_def dict_get_def split: option.splits)


lemma zone_field_hit:
  "zl (JInt x) = Some d \<Longrightarrow> zone_field zl field x = dict_get d field (JStr ''Unknown'')"
  by (simp add: zone_field_def dict_get_def)

lemma zone_field_nonnull:
  assumes "\<forall>k d. zl k = Some d \<longrightarrow> d ''zone_name'' \<noteq> Some JNull \<and> d ''borough'' \<noteq> Some JNull"
  shows "zone_field zl ''zone_name'' x \<noteq> JNull" and "zone_field zl ''borough'' x \<noteq> JNull"
proof -
  have "zone_field zl f x \<noteq> JNull" if "\<forall>k d. zl k = Some d \<longrightarrow> d f \<noteq> Some JNull" for f
  proof (cases "zl (JInt x)")
    case None
    then show ?thesis by (simp add: zone_field_miss)
  next
    case (Some d)
    with that have "d f \<noteq> Some JNull" by blast
    with Some show ?thesis
      by (auto simp: zone_field_hit dict_get_def split: option.splits)
  qed
  with assms show "zone_field zl ''zone_name'' x \<noteq> JNull" and "zone_field zl ''borough'' x \<noteq> JNull"
    by blast+
qed

lemma zone_entries_nonnull:
  assumes "zone_entries fs zl0 = Inr zl"
    and "\<forall>k d. zl0 k = Some d \<longrightarrow> d ''zone_name'' \<noteq> Some JNull \<and> d ''borough'' \<noteq> Some JNull"
    and "\<forall>props. Properties props \<in> set fs \<longrightarrow>
           props ''zone_name'' \<noteq> Some JNull \<and> props ''borough'' \<noteq> Some JNull"
  shows "\<forall>k d. zl k = Some d \<longrightarrow> d ''zone_name'' \<noteq> Some JNull \<and> d ''borough'' \<noteq> Some JNull"
  using assms
proof (induction fs zl0 rule: zone_entries.induct)
  case (1 zl0)
  then show ?case by simp
next
  case (2 fs zl0)
  then show ?case by simp
next
  case (3 fs zl0)
  then show ?case by simp
next
  case (4 props fs zl0)
  let ?e = "[''zone_name'' \<mapsto> dict_get props ''zone_name'' (JStr ''Unknown''),
             ''borough'' \<mapsto> dict_get props ''borough'' (JStr ''Unknown'')]"
  let ?zl1 = "zl0(dict_get props ''zone_id'' JNull \<mapsto> ?e)"
  from "4.prems"(3) have p: "props ''zone_name'' \<noteq> Some JNull" "props ''borough'' \<noteq> Some JNull"
    by simp_all
  then have e: "?e ''zone_name'' \<noteq> Some JNull \<and> ?e ''borough'' \<noteq> Some JNull"
    by (auto simp: dict_get_def split: option.splits)
  have inv: "\<forall>k d. ?zl1 k = Some d \<longrightarrow> d ''zone_name'' \<noteq> Some JNull \<and> d ''borough'' \<noteq> Some JNull"
  proof (intro allI impI)
    fix k d assume "?zl1 k = Some d"
    then have "d = ?e \<or> zl0 k = Some d"
      by (auto split: if_splits)
    with e "4.prems"(2) show "d ''zone_name'' \<noteq> Some JNull \<and> d ''borough'' \<noteq> Some JNull"
      by blast
  qed
  from "4.prems"(1) have z: "zone_entries fs ?zl1 = Inr zl"
    by (simp add: Let_def)
  from "4.prems"(3) have f: "\<forall>props. Properties props \<in> set fs \<longrightarrow>
           props ''zone_name'' \<noteq> Some JNull \<and> props ''borough'' \<noteq> Some JNull"
    by simp
  from "4.IH"[OF refl refl refl z inv f] show ?case .
qed

lemma create_zone_lookup_nonnull:
  assumes "create_zone_lookup (Some fs) = Inr zl"
    and "\<forall>props. Properties props \<in> set fs \<longrightarrow>
           props ''zone_name'' \<noteq> Some JNull \<and> props ''borough'' \<noteq> Some JNull"
  shows "\<forall>k d. zl k = Some d \<longrightarrow> d ''zone_name'' \<noteq> Some JNull \<and> d ''borough'' \<noteq> Some JNull"
proof -
  from assms(1) have "zone_entries fs Map.empty = Inr zl"
    by (simp add: create_zone_lookup_def)
  from zone_entries_nonnull[OF this _ assms(2)] show ?thesis by simp
qed

text \<open>
  Claim C10, amended. Lookup misses fall back to \<open>'Unknown'\<close>: a payment code outside
  1..5 (or a missing one) gives the payment name \<open>'Unknown'\<close>, and every cleaned row has a
  payment name; a location id that is not a key of the zone lookup gives \<open>'Unknown'\<close> for
  zone and borough; an unavailable GeoJSON gives the empty lookup, under which all
  four zone fields of every row are \<open>'Unknown'\<close>; enrichment keeps every row. A location
  id that is a key of the lookup gives what the entry holds (\<open>'Unknown'\<close> where the entry
  lacks the field). So the four zone fields of every row are present when no entry of
  the lookup holds a null zone name or borough, as is the case for a lookup built
  from a zone file in which no feature has a null \<open>zone_name\<close> or \<open>borough\<close>.
\<close>

theorem lookup_misses_fall_back:
  "(payment_type r \<notin> {Some 1, Some 2, Some 3, Some 4, Some 5} \<longrightarrow>
      payment_type_name (add_features r) = Some ''Unknown'') \<and>
   (\<forall>x\<in>set (clean_taxi_data df). payment_type_name x \<noteq> None) \<and>
   (zl (JInt (PULocationID c)) = None \<longrightarrow>
      pickup_zone (enrich_row zl c) = JStr ''Unknown'' \<and>
      pickup_borough (enrich_row zl c) = JStr ''Unknown'') \<and>
   (zl (JInt (DOLocationID c)) = None \<longrightarrow>
      dropoff_zone (enrich_row zl c) = JStr ''Unknown'' \<and>
      dropoff_borough (enrich_row zl c) = JStr ''Unknown'') \<and>
   (zl (JInt (PULocationID c)) = Some d \<longrightarrow>
      pickup_zone (enrich_row zl c) = dict_get d ''zone_name'' (JStr ''Unknown'') \<and>
      pickup_borough (enrich_row zl c) = dict_get d ''borough'' (JStr ''Unknown'')) \<and>
   (zl (JInt (DOLocationID c)) = Some d \<longrightarrow>
      dropoff_zone (enrich_row zl c) = dict_get d ''zone_name'' (JStr ''Unknown'') \<and>
      dropoff_borough (enrich_row zl c) = dict_get d ''borough'' (JStr ''Unknown'')) \<and>
   create_zone_lookup None = Inr Map.empty \<and>
   length (enrich_taxi_data_with_zones cs zl) = length cs \<and>
   (\<forall>z\<in>set (enrich_taxi_data_with_zones cs Map.empty).
      pickup_zone z = JStr ''Unknown'' \<and> pickup_borough z = JStr ''Unknown'' \<and>
      dropoff_zone z = JStr ''Unknown'' \<and> dropoff_borough z = JStr ''Unknown'') \<and>
   ((\<forall>k e. zl k = Some e \<longrightarrow> e ''zone_name'' \<noteq> Some JNull \<and> e ''borough'' \<noteq> Some JNull) \<longrightarrow>
      (\<forall>z\<in>set (enrich_taxi_data_with_zones cs zl).
         pickup_zone z \<noteq> JNull \<and> pickup_borough z \<noteq> JNull \<and>
         dropoff_zone z \<noteq> JNull \<and> dropoff_borough z \<noteq> JNull)) \<and>
   (create_zone_lookup (Some fs) = Inr zl \<and>
    (\<forall>props. Properties props \<in> set fs \<longrightarrow>
       props ''zone_name'' \<noteq> Some JNull \<and> props ''borough'' \<noteq> Some JNull) \<longrightarrow>
      (\<forall>z\<in>set (enrich_taxi_data_with_zones cs zl).
         pickup_zone z \<noteq> JNull \<and> pickup_borough z \<noteq> JNull \<and>
         dropoff_zone z \<noteq> JNull \<and> dropoff_borough z \<noteq> JNull))"
proof -
  have def: "pickup_zone z \<noteq> JNull \<and> pickup_borough z \<noteq> JNull \<and>
             dropoff_zone z \<noteq> JNull \<and> dropoff_borough z \<noteq> JNull"
    if nn: "\<forall>k e. zl k = Some e \<longrightarrow> e ''zone_name'' \<noteq> Some JNull \<and> e ''borough'' \<noteq> Some JNull"
      and z: "z \<in> set (enrich_taxi_data_with_zones cs zl)" for z
  proof -
    from z obtain c0 where "z = enrich_row zl c0"
      by (auto simp: enrich_taxi_data_with_zones_def)
    then show ?thesis
      using zone_field_nonnull[OF nn] by (simp add: enrich_row_zones)
  qed
  have 1: "payment_type r \<notin> {Some 1, Some 2, Some 3, Some 4, Some 5} \<longrightarrow>
      payment_type_name (add_features r) = Some ''Unknown''"
    using payment_name_unknown by blast
  have 2: "\<forall>x\<in>set (clean_taxi_data df). payment_type_name x \<noteq> None"
  proof
    fix x assume "x \<in> set (clean_taxi_data df)"
    then obtain r0 where "x = add_features r0"
      by (auto simp: clean_taxi_data_set)
    then show "payment_type_name x \<noteq> None"
      using payment_name_defined by blast
  qed
  have 3: "zl (JInt (PULocationID c)) = None \<longrightarrow>
      pickup_zone (enrich_row zl c) = JStr ''Unknown'' \<and>
      pickup_borough (enrich_row zl c) = JStr ''Unknown''"
    by (simp add: enrich_row_zones zone_field_miss)
  have 4: "zl (JInt (DOLocationID c)) = None \<longrightarrow>
      dropoff_zone (enrich_row zl c) = JStr ''Unknown'' \<and>
      dropoff_borough (enrich_row zl c) = JStr ''Unknown''"
    by (simp add: enrich_row_zones zone_field_miss)
  have 5: "zl (JInt (PULocationID c)) = Some d \<longrightarrow>
      pickup_zone (enrich_row zl c) = dict_get d ''zone_name'' (JStr ''Unknown'') \<and>
      pickup_borough (enrich_row zl c) = dict_get d ''borough'' (JStr ''Unknown'')"
    by (simp add: enrich_row_zones zone_field_hit)
  have 6: "zl (JInt (DOLocationID c)) = Some d \<longrightarrow>
      dropoff_zone (enrich_row zl c) = dict_get d ''zone_name'' (JStr ''Unknown'') \<and>
      dropoff_borough (enrich_row zl c) = dict_get d ''borough'' (JStr ''Unknown'')"
    by (simp add: enrich_row_zones zone_field_hit)
  have 7: "create_zone_lookup None = Inr Map.empty"
    by (simp add: create_zone_lookup_def)
  have 8: "length (enrich_taxi_data_with_zones cs zl) = length cs"
    by (simp add: enrich_taxi_data_with_zones_def)
  have 9: "\<forall>z\<in>set (enrich_taxi_data_with_zones cs Map.empty).
      pickup_zone z = JStr ''Unknown'' \<and> pickup_borough z = JStr ''Unknown'' \<and>
      dropoff_zone z = JStr ''Unknown'' \<and> dropoff_borough z = JStr ''Unknown''"
  proof
    fix z assume "z \<in> set (enrich_taxi_data_with_zones cs Map.empty)"
    then obtain c0 where "z = enrich_row Map.empty c0"
      by (auto simp: enrich_taxi_data_with_zones_def)
    then show "pickup_zone z = JStr ''Unknown'' \<and> pickup_borough z = JStr ''Unknown'' \<and>
      dropoff_zone z = JStr ''Unknown'' \<and> dropoff_borough z = JStr ''Unknown''"
      by (simp add: enrich_row_zones zone_field_miss)
  qed
  have 10: "(\<forall>k e. zl k = Some e \<longrightarrow> e ''zone_name'' \<noteq> Some JNull \<and> e ''borough'' \<noteq> Some JNull) \<longrightarrow>
      (\<forall>z\<in>set (enrich_taxi_data_with_zones cs zl).
         pickup_zone z \<noteq> JNull \<and> pickup_borough z \<noteq> JNull \<and>
         dropoff_zone z \<noteq> JNull \<and> dropoff_borough z \<noteq> JNull)"
    using def by blast
  have 11: "create_zone_lookup (Some fs) = Inr zl \<and>
    (\<forall>props. Properties props \<in> set fs \<longrightarrow>
       props ''zone_name'' \<noteq> Some JNull \<and> props ''borough'' \<noteq> Some JNull) \<longrightarrow>
      (\<forall>z\<in>set (enrich_taxi_data_with_zones cs zl).
         pickup_zone z \<noteq> JNull \<and> pickup_borough z \<noteq> JNull \<and>
         dropoff_zone z \<noteq> JNull \<and> dropoff_borough z \<noteq> JNull)"
    using create_zone_lookup_nonnull[of fs zl] def by blast
  from 1 2 3 4 5 6 7 8 9 10 11 show ?thesis
    by (intro conjI)
qed


section \<open>Properties of the weather join\<close>

lemma unique_distinct: "distinct (unique xs)"
  by (simp add: unique_def)

lemma unique_set: "set (unique xs) = set xs"
  by (simp add: unique_def)

lemma weather_for_date: "wx_date (weather_for d draw) = d"
  by (simp add: weather_for_def Let_def)

lemma weather_for_temperature:
  "d \<noteq> None \<Longrightarrow> wx_temperature (weather_for d draw) \<noteq> None"
  by (simp add: weather_for_def Let_def)

lemma generate_synthetic_weather_dates:
  "map wx_date (generate_synthetic_weather df draws) = unique (map date df)"
  by (simp add: generate_synthetic_weather_def Let_def weather_for_date o_def map_nth)

lemma generate_synthetic_weather_length:
  "length (generate_synthetic_weather df draws) = length (unique (map date df))"
  by (simp add: generate_synthetic_weather_def Let_def)

lemma generate_synthetic_weather_temperature:
  assumes "w \<in> set (generate_synthetic_weather df draws)" "wx_date w \<noteq> None"
  shows "wx_temperature w \<noteq> None"
proof -
  from assms(1) obtain d i where "w = weather_for d (draws i)"
    by (auto simp: generate_synthetic_weather_def Let_def)
  with assms(2) show ?thesis
    by (simp add: weather_for_date weather_for_temperature)
qed

lemma filter_distinct_key:
  assumes "distinct (map f xs)" "x \<in> set xs"
  shows "filter (\<lambda>w. f w = f x) xs = [x]"
  using assms
proof (induction xs)
  case Nil
  then show ?case by simp
next
  case (Cons a xs)
  show ?case
  proof (cases "a = x")
    case True
    from Cons.prems(1) have "f a \<notin> f ` set xs" by simp
    then have "\<forall>w\<in>set xs. f w \<noteq> f x" unfolding True by (metis imageI)
    then have "filter (\<lambda>w. f w = f x) xs = []" by (simp add: filter_empty_conv)
    with True show ?thesis by simp
  next
    case False
    with Cons.prems have x: "x \<in> set xs" and "f a \<noteq> f x" by auto
    with Cons show ?thesis by simp
  qed
qed

lemma merge_row_single:
  assumes "distinct (map wx_date wdf)" "w \<in> set wdf" "wx_date w = date r"
  shows "merge_row wdf r =
           [with_weather r (wx_temperature w) (Some (wx_is_rainy w)) (Some (wx_precipitation_inches w))]"
proof -
  from assms have "filter (\<lambda>v. wx_date v = date r) wdf = [w]"
    using filter_distinct_key[of wx_date wdf w] by simp
  then show ?thesis
    by (simp add: merge_row_def)
qed

lemma concat_singletons:
  "\<forall>x\<in>set xs. \<exists>y. f x = [y] \<Longrightarrow> length (concat (map f xs)) = length xs"
  by (induction xs) auto

lemma merge_row_generated:
  assumes "r \<in> set df"
  shows "\<exists>w\<in>set (generate_synthetic_weather df draws). wx_date w = date r \<and>
           merge_row (generate_synthetic_weather df draws) r =
             [with_weather r (wx_temperature w) (Some (wx_is_rainy w))
                (Some (wx_precipitation_inches w))]"
proof -
  let ?wdf = "generate_synthetic_weather df draws"
  have d: "distinct (map wx_date ?wdf)"
    by (simp add: generate_synthetic_weather_dates unique_distinct)
  from assms have "date r \<in> set (map wx_date ?wdf)"
    by (simp add: generate_synthetic_weather_dates unique_set)
  then obtain w where w: "w \<in> set ?wdf" "wx_date w = date r" by auto
  with d show ?thesis
    using merge_row_single by blast
qed

text \<open>On the empty table the generator returns a frame without columns and the join raises.\<close>

theorem merge_weather_data_counterexample:
  "merge_weather_data [] (generate_synthetic_weather ([] :: zoned_trip list) example_draws) =
     Inl KeyError"
  by (simp add: merge_weather_data_def generate_synthetic_weather_def unique_def)

text \<open>
  Claim C8, amended. \<open>generate_synthetic_weather\<close> returns exactly one weather row per
  distinct date of the taxi table. For a taxi table that is not empty and whose rows
  all have a date, the left join of \<open>merge_weather_data\<close> returns the rows of the taxi
  table, one for one and in order, each with temperature, rain flag and precipitation
  present.
\<close>

theorem weather_join_keeps_rows:
  "distinct (map wx_date (generate_synthetic_weather df draws)) \<and>
   set (map wx_date (generate_synthetic_weather df draws)) = set (map date df) \<and>
   (df \<noteq> [] \<and> (\<forall>r\<in>set df. date r \<noteq> None) \<longrightarrow>
      (\<exists>merged. merge_weather_data df (generate_synthetic_weather df draws) = Inr merged \<and>
         length merged = length df \<and>
         map zoned_trip.truncate merged = df \<and>
         (\<forall>x\<in>set merged.
            temperature x \<noteq> None \<and> is_rainy x \<noteq> None \<and> precipitation_inches x \<noteq> None)))"
proof (intro conjI impI)
  show "distinct (map wx_date (generate_synthetic_weather df draws))"
    by (simp add: generate_synthetic_weather_dates unique_distinct)
  show "set (map wx_date (generate_synthetic_weather df draws)) = set (map date df)"
    by (simp only: generate_synthetic_weather_dates unique_set)
next
  let ?wdf = "generate_synthetic_weather df draws"
  let ?merged = "concat (map (merge_row ?wdf) df)"
  assume a: "df \<noteq> [] \<and> (\<forall>r\<in>set df. date r \<noteq> None)"
  then have "unique (map date df) \<noteq> []"
    using unique_set[of "map date df"] by (metis map_is_Nil_conv set_empty)
  then have ne: "?wdf \<noteq> []"
    using generate_synthetic_weather_length[of df draws] by auto
  then have m: "merge_weather_data df ?wdf = Inr ?merged"
    by (simp add: merge_weather_data_def)
  have len: "length ?merged = length df"
    using merge_row_generated[of _ df draws] by (intro concat_singletons) blast
  have tr: "map zoned_trip.truncate (concat (map (merge_row ?wdf) xs)) = xs"
    if "set xs \<subseteq> set df" for xs
    using that
  proof (induction xs)
    case Nil
    then show ?case by simp
  next
    case (Cons r xs)
    then have "r \<in> set df" by simp
    from merge_row_generated[OF this, of draws]
    have "\<exists>t b p. merge_row ?wdf r = [with_weather r t b p]" by blast
    then obtain t b p where "merge_row ?wdf r = [with_weather r t b p]" by blast
    with Cons show ?case by simp
  qed
  have pop: "temperature x \<noteq> None \<and> is_rainy x \<noteq> None \<and> precipitation_inches x \<noteq> None"
    if "x \<in> set ?merged" for x
  proof -
    from that obtain r where r: "r \<in> set df" "x \<in> set (merge_row ?wdf r)" by auto
    from merge_row_generated[OF r(1), of draws] obtain w where
      w: "w \<in> set ?wdf" "wx_date w = date r"
      "merge_row ?wdf r = [with_weather r (wx_temperature w) (Some (wx_is_rainy w))
                (Some (wx_precipitation_inches w))]" by auto
    from a r(1) w(2) have "wx_date w \<noteq> None" by simp
    with w(1) have "wx_temperature w \<noteq> None"
      by (rule generate_synthetic_weather_temperature)
    with r(2) w(3) show ?thesis by simp
  qed
  from m len tr[of df] pop
  show "\<exists>merged. merge_weather_data df ?wdf = Inr merged \<and>
         length merged = length df \<and>
         map zoned_trip.truncate merged = df \<and>
         (\<forall>x\<in>set merged.
            temperature x \<noteq> None \<and> is_rainy x \<noteq> None \<and> precipitation_inches x \<noteq> None)"
    by blast
qed


section \<open>Properties of the loader\<close>

lemma print_line_fields [simp]:
  "raw_files (print_line msg w) = raw_files w"
  "cache_files (print_line msg w) = cache_files w"
  "raw_writable (print_line msg w) = raw_writable w"
  "cache_writable (print_line msg w) = cache_writable w"
  "parquet_url (print_line msg w) = parquet_url w"
  "geojson_url (print_line msg w) = geojson_url w"
  "random_state (print_line msg w) = random_state w"
  "requests (print_line msg w) = requests w"
  "stdout (print_line msg w) = stdout w @ [msg]"
  by (simp_all add: print_line_def)

lemma print_summary_fields [simp]:
  "raw_files (print_summary w) = raw_files w"
  "cache_files (print_summary w) = cache_files w"
  "raw_writable (print_summary w) = raw_writable w"
  "cache_writable (print_summary w) = cache_writable w"
  "parquet_url (print_summary w) = parquet_url w"
  "geojson_url (print_summary w) = geojson_url w"
  "random_state (print_summary w) = random_state w"
  "requests (print_summary w) = requests w"
  "stdout (print_summary w) = stdout w @ [''  - Raw records'', ''  - Date range'', ''  - Zones covered'']"
  by (simp_all add: print_summary_def)

lemma agree_refl [simp]: "agree w w"
  by (simp add: agree_def)

lemma agree_print_line [simp]:
  "agree (print_line msg w) w' = agree w w'" "agree w (print_line msg w') = agree w w'"
  by (simp_all add: agree_def)

subsection \<open>fetch_parquet\<close>

lemma fetch_parquet_frame [simp]:
  "cache_files (snd (fetch_parquet y m w)) = cache_files w"
  "cache_writable (snd (fetch_parquet y m w)) = cache_writable w"
  "raw_writable (snd (fetch_parquet y m w)) = raw_writable w"
  "parquet_url (snd (fetch_parquet y m w)) = parquet_url w"
  "geojson_url (snd (fetch_parquet y m w)) = geojson_url w"
  "random_state (snd (fetch_parquet y m w)) = random_state w"
  by (simp_all add: fetch_parquet_def Let_def split: parquet_response.splits)

lemma fetch_parquet_requests:
  "requests (snd (fetch_parquet y m w)) =
     requests w @ (if raw_files w (y, m) = None then [ParquetUrl y m] else [])"
  by (simp add: fetch_parquet_def Let_def split: parquet_response.splits)

lemma fetch_parquet_stdout: "\<exists>out. stdout (snd (fetch_parquet y m w)) = stdout w @ out"
  by (simp add: fetch_parquet_def Let_def split: parquet_response.splits)

lemma fetch_parquet_cached:
  "fst (fetch_parquet y m w) = Inr rows \<Longrightarrow> raw_files (snd (fetch_parquet y m w)) (y, m) = Some (Parquet rows)"
  by (auto simp: fetch_parquet_def Let_def read_parquet_def
      split: parquet_response.splits option.splits parquet_file.splits if_splits)

lemma fetch_parquet_agree:
  "agree w w' \<Longrightarrow>
     fst (fetch_parquet y m w) = fst (fetch_parquet y m w') \<and>
     agree (snd (fetch_parquet y m w)) (snd (fetch_parquet y m w'))"
  by (simp add: agree_def fetch_parquet_def Let_def split: parquet_response.splits)

subsection \<open>load_taxi_data\<close>

lemma load_taxi_data_alt:
  "load_taxi_data y m n smp w =
     (let p = fetch_parquet y m (print_line ''Loading NYC Taxi Data'' w)
      in case fst p of
           Inl e \<Rightarrow> ([], print_line ''Error loading taxi data'' (snd p))
         | Inr df0 \<Rightarrow>
             (clean_taxi_data (if length df0 > n then smp n df0 else df0),
              print_line ''Loaded taxi records'' (snd p)))"
  by (simp add: load_taxi_data_def Let_def split: prod.splits sum.splits)

lemma load_taxi_data_frame [simp]:
  "cache_files (snd (load_taxi_data y m n smp w)) = cache_files w"
  "cache_writable (snd (load_taxi_data y m n smp w)) = cache_writable w"
  "raw_writable (snd (load_taxi_data y m n smp w)) = raw_writable w"
  "parquet_url (snd (load_taxi_data y m n smp w)) = parquet_url w"
  "geojson_url (snd (load_taxi_data y m n smp w)) = geojson_url w"
  "random_state (snd (load_taxi_data y m n smp w)) = random_state w"
  by (simp_all add: load_taxi_data_alt Let_def split: sum.splits)

lemma load_taxi_data_requests:
  "requests (snd (load_taxi_data y m n smp w)) =
     requests w @ (if raw_files w (y, m) = None then [ParquetUrl y m] else [])"
  by (simp add: load_taxi_data_alt Let_def fetch_parquet_requests split: sum.splits)

lemma load_taxi_data_stdout: "\<exists>out. stdout (snd (load_taxi_data y m n smp w)) = stdout w @ out"
proof -
  obtain out where "stdout (snd (fetch_parquet y m (print_line ''Loading NYC Taxi Data'' w))) =
      stdout (print_line ''Loading NYC Taxi Data'' w) @ out"
    using fetch_parquet_stdout by blast
  then show ?thesis
    by (simp add: load_taxi_data_alt Let_def split: sum.splits)
qed

lemma load_taxi_data_agree:
  assumes "agree w w'"
  shows "fst (load_taxi_data y m n smp w) = fst (load_taxi_data y m n smp w') \<and>
     agree (snd (load_taxi_data y m n smp w)) (snd (load_taxi_data y m n smp w'))"
proof -
  from assms have "agree (print_line ''Loading NYC Taxi Data'' w) (print_line ''Loading NYC Taxi Data'' w')"
    by simp
  from fetch_parquet_agree[OF this, of y m] show ?thesis
    by (simp add: load_taxi_data_alt Let_def split: sum.splits)
qed

lemma load_taxi_data_valid: "r \<in> set (fst (load_taxi_data y m n smp w)) \<Longrightarrow> valid_trip r"
  by (auto simp: load_taxi_data_alt Let_def clean_taxi_data_valid split: sum.splits)

lemma load_taxi_data_cached:
  "fst (load_taxi_data y m n smp w) \<noteq> [] \<Longrightarrow> raw_files (snd (load_taxi_data y m n smp w)) (y, m) \<noteq> None"
  by (auto simp: load_taxi_data_alt Let_def dest!: fetch_parquet_cached split: sum.splits)

lemma fetch_parquet_fails:
  "parquet_load_fails w y m \<Longrightarrow> \<exists>e. fst (fetch_parquet y m w) = Inl e"
  by (auto simp: parquet_load_fails_def fetch_parquet_def read_parquet_def Let_def
      split: option.splits parquet_response.splits)

lemma load_taxi_data_fails:
  assumes "parquet_load_fails w y m"
  shows "fst (load_taxi_data y m n smp w) = [] \<and>
         last (stdout (snd (load_taxi_data y m n smp w))) = ''Error loading taxi data''"
proof -
  from assms have "parquet_load_fails (print_line ''Loading NYC Taxi Data'' w) y m"
    by (simp add: parquet_load_fails_def split: option.splits)
  from fetch_parquet_fails[OF this] show ?thesis
    by (auto simp: load_taxi_data_alt Let_def)
qed

subsection \<open>load_nyc_zones_geojson\<close>

lemma load_nyc_zones_geojson_frame [simp]:
  "raw_files (snd (load_nyc_zones_geojson w)) = raw_files w"
  "cache_files (snd (load_nyc_zones_geojson w)) = cache_files w"
  "cache_writable (snd (load_nyc_zones_geojson w)) = cache_writable w"
  "raw_writable (snd (load_nyc_zones_geojson w)) = raw_writable w"
  "parquet_url (snd (load_nyc_zones_geojson w)) = parquet_url w"
  "geojson_url (snd (load_nyc_zones_geojson w)) = geojson_url w"
  "random_state (snd (load_nyc_zones_geojson w)) = random_state w"
  "requests (snd (load_nyc_zones_geojson w)) = requests w @ [GeoJsonUrl]"
  by (simp_all add: load_nyc_zones_geojson_def Let_def split: geojson_response.splits)

lemma load_nyc_zones_geojson_result:
  "fst (load_nyc_zones_geojson w) = (case geojson_url w of GjBody fs \<Rightarrow> Some fs | _ \<Rightarrow> None)"
  by (simp add: load_nyc_zones_geojson_def Let_def split: geojson_response.splits)

lemma load_nyc_zones_geojson_stdout:
  "stdout (snd (load_nyc_zones_geojson w)) =
     stdout w @ [''Loading NYC Taxi Zones GeoJSON...'',
                 (case geojson_url w of GjBody fs \<Rightarrow> ''Loaded zones'' | _ \<Rightarrow> ''Error loading GeoJSON'')]"
  by (simp add: load_nyc_zones_geojson_def Let_def split: geojson_response.splits)

lemma load_nyc_zones_geojson_agree:
  "agree w w' \<Longrightarrow>
     fst (load_nyc_zones_geojson w) = fst (load_nyc_zones_geojson w') \<and>
     agree (snd (load_nyc_zones_geojson w)) (snd (load_nyc_zones_geojson w'))"
  by (simp add: agree_def load_nyc_zones_geojson_result)

lemma merge_generated:
  assumes "df \<noteq> []"
  shows "merge_weather_data df (generate_synthetic_weather df draws) =
           Inr (concat (map (merge_row (generate_synthetic_weather df draws)) df))"
proof -
  from assms have "unique (map date df) \<noteq> []"
    using unique_set[of "map date df"] by (metis map_is_Nil_conv set_empty)
  then have "generate_synthetic_weather df draws \<noteq> []"
    using generate_synthetic_weather_length[of df draws] by auto
  then show ?thesis
    by (simp add: merge_weather_data_def)
qed

lemma enrich_nonempty: "cs \<noteq> [] \<Longrightarrow> enrich_taxi_data_with_zones cs zl \<noteq> []"
  by (simp add: enrich_taxi_data_with_zones_def)

lemma download_and_process_alt:
  "download_and_process y m n smp agg w =
     (let cleaned = fst (load_taxi_data y m n smp w);
          w1 = snd (load_taxi_data y m n smp w)
      in if cleaned = [] then (Inr None, print_line ''Failed to load taxi data'' w1)
         else (case create_zone_lookup (fst (load_nyc_zones_geojson w1)) of
                 Inl e \<Rightarrow> (Inl e, snd (load_nyc_zones_geojson w1))
               | Inr zl \<Rightarrow> processed y m n agg cleaned (fst (load_nyc_zones_geojson w1)) zl
                             (snd (load_nyc_zones_geojson w1))))"
  by (simp add: download_and_process_def processed_def Let_def merge_generated enrich_nonempty
      split: prod.splits sum.splits)


subsection \<open>processed\<close>

lemma processed_result:
  "\<exists>d. fst (processed y m n agg cleaned gj zl w) = Inr (Some d) \<and> geojson d = gj \<and> zone_lookup d = zl"
  by (simp add: processed_def Let_def)

lemma processed_frame [simp]:
  "raw_files (snd (processed y m n agg cleaned gj zl w)) = raw_files w"
  "cache_writable (snd (processed y m n agg cleaned gj zl w)) = cache_writable w"
  "raw_writable (snd (processed y m n agg cleaned gj zl w)) = raw_writable w"
  "parquet_url (snd (processed y m n agg cleaned gj zl w)) = parquet_url w"
  "geojson_url (snd (processed y m n agg cleaned gj zl w)) = geojson_url w"
  "requests (snd (processed y m n agg cleaned gj zl w)) = requests w"
  by (simp_all add: processed_def Let_def)

lemma processed_cache:
  "cache_files (snd (processed y m n agg cleaned gj zl w)) =
     (if cache_writable w
      then (cache_files w)((y, m, n) \<mapsto> Pickle (the (projr (fst (processed y m n agg cleaned gj zl w)))))
      else cache_files w)"
  by (simp add: processed_def Let_def)

lemma processed_stdout:
  "\<exists>out. stdout (snd (processed y m n agg cleaned gj zl w)) = stdout w @ out"
  by (simp add: processed_def Let_def)

lemma processed_agree:
  "agree w w' \<Longrightarrow>
     fst (processed y m n agg cleaned gj zl w) = fst (processed y m n agg cleaned gj zl w') \<and>
     agree (snd (processed y m n agg cleaned gj zl w)) (snd (processed y m n agg cleaned gj zl w'))"
  by (simp add: agree_def processed_def Let_def)

lemma processed_valid:
  assumes "\<forall>c\<in>set cleaned. valid_trip c" "fst (processed y m n agg cleaned gj zl w) = Inr (Some d)"
    "r \<in> set (raw d)"
  shows "valid_trip r"
proof -
  let ?taxi = "enrich_taxi_data_with_zones cleaned zl"
  from assms(1) have v: "\<forall>z\<in>set ?taxi. valid_trip z"
    by (auto simp: enrich_taxi_data_with_zones_def valid_trip_enrich_row)
  from assms(2,3) obtain z where "z \<in> set ?taxi"
    "r \<in> set (merge_row (generate_synthetic_weather ?taxi (random_state w)) z)"
    by (auto simp: processed_def Let_def)
  with v show ?thesis
    using merge_row_valid by blast
qed

subsection \<open>download_and_process\<close>

lemma download_and_process_frame [simp]:
  "cache_writable (snd (download_and_process y m n smp agg w)) = cache_writable w"
  "raw_writable (snd (download_and_process y m n smp agg w)) = raw_writable w"
  "parquet_url (snd (download_and_process y m n smp agg w)) = parquet_url w"
  "geojson_url (snd (download_and_process y m n smp agg w)) = geojson_url w"
  by (simp_all add: download_and_process_alt Let_def split: sum.splits)

lemma download_and_process_requests:
  "requests (snd (download_and_process y m n smp agg w)) =
     requests w @ (if raw_files w (y, m) = None then [ParquetUrl y m] else []) @
       (if fst (load_taxi_data y m n smp w) = [] then [] else [GeoJsonUrl])"
  by (simp add: download_and_process_alt Let_def load_taxi_data_requests split: sum.splits)

lemma download_and_process_cache:
  "cache_files (snd (download_and_process y m n smp agg w)) =
     (case fst (download_and_process y m n smp agg w) of
        Inr (Some d) \<Rightarrow> if cache_writable w then (cache_files w)((y, m, n) \<mapsto> Pickle d) else cache_files w
      | _ \<Rightarrow> cache_files w)"
proof -
  have "cache_files (snd (processed y m n agg cleaned gj zl w2)) =
     (case fst (processed y m n agg cleaned gj zl w2) of
        Inr (Some d) \<Rightarrow> if cache_writable w2 then (cache_files w2)((y, m, n) \<mapsto> Pickle d) else cache_files w2
      | _ \<Rightarrow> cache_files w2)" for cleaned gj zl and w2 :: "'a world"
    by (simp add: processed_def Let_def)
  then show ?thesis
    by (simp add: download_and_process_alt Let_def split: sum.splits option.splits)
qed

lemma download_and_process_stdout:
  "\<exists>out. stdout (snd (download_and_process y m n smp agg w)) = stdout w @ out"
proof -
  let ?t = "load_taxi_data y m n smp w"
  let ?g = "load_nyc_zones_geojson (snd ?t)"
  obtain o1 where o1: "stdout (snd ?t) = stdout w @ o1"
    using load_taxi_data_stdout by blast
  have o2: "\<exists>o2. stdout (snd ?g) = stdout w @ o2"
    by (simp add: load_nyc_zones_geojson_stdout o1)
  have o3: "\<exists>o3. stdout (snd (processed y m n agg cleaned gj zl (snd ?g))) = stdout w @ o3"
    for cleaned gj zl
    using processed_stdout[of y m n agg cleaned gj zl "snd ?g"] o2 by auto
  show ?thesis
    using o1 o2 o3 by (auto simp: download_and_process_alt Let_def split: sum.splits)
qed

lemma download_and_process_agree:
  assumes "agree w w'"
  shows "fst (download_and_process y m n smp agg w) = fst (download_and_process y m n smp agg w') \<and>
         agree (snd (download_and_process y m n smp agg w)) (snd (download_and_process y m n smp agg w'))"
proof -
  let ?t = "load_taxi_data y m n smp w" and ?t' = "load_taxi_data y m n smp w'"
  from load_taxi_data_agree[OF assms, of y m n smp]
  have t: "fst ?t = fst ?t'" and a1: "agree (snd ?t) (snd ?t')" by simp_all
  let ?g = "load_nyc_zones_geojson (snd ?t)" and ?g' = "load_nyc_zones_geojson (snd ?t')"
  from load_nyc_zones_geojson_agree[OF a1]
  have g: "fst ?g = fst ?g'" and a2: "agree (snd ?g) (snd ?g')" by simp_all
  note p = processed_agree[OF a2, of y m n agg]
  show ?thesis
    using a1 a2 p by (simp add: download_and_process_alt Let_def t g split: sum.splits)
qed

lemma download_and_process_valid:
  assumes "fst (download_and_process y m n smp agg w) = Inr (Some d)" "r \<in> set (raw d)"
  shows "valid_trip r"
proof -
  have v: "\<forall>c\<in>set (fst (load_taxi_data y m n smp w)). valid_trip c"
    using load_taxi_data_valid by blast
  from assms(1) obtain zl w2 gj where
    "fst (processed y m n agg (fst (load_taxi_data y m n smp w)) gj zl w2) = Inr (Some d)"
    by (auto simp: download_and_process_alt Let_def split: if_splits sum.splits)
  from processed_valid[OF v this assms(2)] show ?thesis .
qed

lemma download_and_process_fails:
  assumes "parquet_load_fails w y m"
  shows "fst (download_and_process y m n smp agg w) = Inr None"
    and "''Error loading taxi data'' \<in> set (stdout (snd (download_and_process y m n smp agg w)))"
proof -
  from load_taxi_data_fails[OF assms, of n smp]
  have e: "fst (load_taxi_data y m n smp w) = []"
    and l: "last (stdout (snd (load_taxi_data y m n smp w))) = ''Error loading taxi data''"
    by simp_all
  from e show "fst (download_and_process y m n smp agg w) = Inr None"
    by (simp add: download_and_process_alt)
  obtain out where o: "stdout (snd (load_taxi_data y m n smp w)) = stdout w @ out"
    using load_taxi_data_stdout by blast
  have "stdout (snd (load_taxi_data y m n smp w)) \<noteq> []"
    by (simp add: load_taxi_data_alt Let_def split: sum.splits)
  with l have "''Error loading taxi data'' \<in> set (stdout (snd (load_taxi_data y m n smp w)))"
    using last_in_set by metis
  with e show "''Error loading taxi data'' \<in> set (stdout (snd (download_and_process y m n smp agg w)))"
    by (simp add: download_and_process_alt)
qed

lemma download_and_process_geojson_fails:
  assumes "\<forall>fs. geojson_url w \<noteq> GjBody fs" "fst (load_taxi_data y m n smp w) \<noteq> []"
  shows "\<exists>d. fst (download_and_process y m n smp agg w) = Inr (Some d) \<and>
              geojson d = None \<and> zone_lookup d = Map.empty"
    and "''Error loading GeoJSON'' \<in> set (stdout (snd (download_and_process y m n smp agg w)))"
proof -
  let ?w1 = "snd (load_taxi_data y m n smp w)"
  let ?g = "load_nyc_zones_geojson ?w1"
  from assms(1) have gj: "fst ?g = None"
    by (simp add: load_nyc_zones_geojson_result split: geojson_response.splits)
  from assms(1) have out: "stdout (snd ?g) =
      stdout ?w1 @ [''Loading NYC Taxi Zones GeoJSON...'', ''Error loading GeoJSON'']"
    by (simp add: load_nyc_zones_geojson_stdout split: geojson_response.splits)
  have dp: "download_and_process y m n smp agg w =
      processed y m n agg (fst (load_taxi_data y m n smp w)) None Map.empty (snd ?g)"
    using assms(2) by (simp add: download_and_process_alt Let_def gj create_zone_lookup_def)
  show "\<exists>d. fst (download_and_process y m n smp agg w) = Inr (Some d) \<and>
              geojson d = None \<and> zone_lookup d = Map.empty"
    unfolding dp by (rule processed_result)
  obtain o3 where "stdout (snd (processed y m n agg (fst (load_taxi_data y m n smp w)) None Map.empty (snd ?g))) =
      stdout (snd ?g) @ o3"
    using processed_stdout by blast
  then show "''Error loading GeoJSON'' \<in> set (stdout (snd (download_and_process y m n smp agg w)))"
    by (simp add: dp out)
qed

lemma load_all_data_hit:
  "uc \<Longrightarrow> cache_files w (y, m, n) = Some (Pickle d) \<Longrightarrow>
     load_all_data y m n uc smp agg w =
       (Inr (Some d), print_summary (print_line ''Data loaded from cache successfully!''
                        (print_line ''Loading data from cache...'' w)))"
  by (simp add: load_all_data_def)

lemma load_all_data_cases:
  obtains (hit) d where "uc" "cache_files w (y, m, n) = Some (Pickle d)"
  | (fresh) w' where "agree w w'" "cache_files w' = cache_files w"
      "cache_writable w' = cache_writable w" "requests w' = requests w"
      "\<exists>out. stdout w' = stdout w @ out"
      "uc \<and> cache_files w (y, m, n) = Some NotPickle \<longrightarrow>
         ''Cache load failed. Downloading fresh data...'' \<in> set (stdout w')"
      "load_all_data y m n uc smp agg w = download_and_process y m n smp agg w'"
      "\<not> (uc \<and> (\<exists>d. cache_files w (y, m, n) = Some (Pickle d)))"
proof (cases "uc \<and> cache_files w (y, m, n) \<noteq> None")
  case False
  then have "load_all_data y m n uc smp agg w = download_and_process y m n smp agg w"
    by (auto simp: load_all_data_def)
  with False show ?thesis
    by (intro fresh[of w]) auto
next
  case True
  then obtain f where f: "cache_files w (y, m, n) = Some f" by auto
  show ?thesis
  proof (cases f)
    case (Pickle d)
    with True f show ?thesis by (intro hit[of d]) simp_all
  next
    case NotPickle
    let ?w' = "print_line ''Cache load failed. Downloading fresh data...''
                 (print_line ''Loading data from cache...'' w)"
    from True f NotPickle
    have "load_all_data y m n uc smp agg w = download_and_process y m n smp agg ?w'"
      by (simp add: load_all_data_def)
    with f NotPickle show ?thesis
      by (intro fresh[of ?w']) simp_all
  qed
qed

lemma load_all_data_requests:
  "\<exists>rs. requests (snd (load_all_data y m n uc smp agg w)) = requests w @ rs \<and>
        distinct rs \<and> set rs \<subseteq> {ParquetUrl y m, GeoJsonUrl}"
proof (cases rule: load_all_data_cases[where uc=uc and w=w and y=y and m=m and n=n and smp=smp and agg=agg])
  case (hit d)
  then show ?thesis by (simp add: load_all_data_hit)
next
  case (fresh w')
  then show ?thesis
    by (auto simp: download_and_process_requests)
qed

lemma load_all_data_written:
  assumes "fst (load_all_data y m n uc smp agg w) = Inr (Some d)" "cache_writable w"
  shows "cache_files (snd (load_all_data y m n uc smp agg w)) (y, m, n) = Some (Pickle d)"
proof (cases rule: load_all_data_cases[where uc=uc and w=w and y=y and m=m and n=n and smp=smp and agg=agg])
  case (hit d')
  with assms show ?thesis by (simp add: load_all_data_hit)
next
  case (fresh w')
  with assms show ?thesis
    by (simp add: download_and_process_cache)
qed

lemma load_all_data_valid:
  assumes "cache_valid w"
  shows "cache_valid (snd (load_all_data y m n uc smp agg w))"
    and "fst (load_all_data y m n uc smp agg w) = Inr (Some d) \<Longrightarrow> r \<in> set (raw d) \<Longrightarrow> valid_trip r"
proof -
  have "cache_valid (snd (load_all_data y m n uc smp agg w)) \<and>
        (fst (load_all_data y m n uc smp agg w) = Inr (Some d) \<longrightarrow> r \<in> set (raw d) \<longrightarrow> valid_trip r)"
  proof (cases rule: load_all_data_cases[where uc=uc and w=w and y=y and m=m and n=n and smp=smp and agg=agg])
    case (hit d')
    with assms show ?thesis
      by (auto simp: load_all_data_hit cache_valid_def)
  next
    case (fresh w')
    let ?r = "download_and_process y m n smp agg w'"
    have v: "fst ?r = Inr (Some d0) \<Longrightarrow> r0 \<in> set (raw d0) \<Longrightarrow> valid_trip r0" for d0 r0
      by (rule download_and_process_valid)
    from assms fresh(2) have cv: "cache_valid w'"
      by (simp add: cache_valid_def)
    have "cache_valid (snd ?r)"
    proof (cases "fst ?r")
      case (Inl e)
      with cv show ?thesis by (simp add: cache_valid_def download_and_process_cache)
    next
      case (Inr x)
      show ?thesis
      proof (cases x)
        case None
        with Inr cv show ?thesis by (simp add: cache_valid_def download_and_process_cache)
      next
        case (Some d0)
        with Inr v have "\<forall>r0\<in>set (raw d0). valid_trip r0" by blast
        with Some Inr cv show ?thesis
          by (auto simp: cache_valid_def download_and_process_cache)
      qed
    qed
    with v fresh(7) show ?thesis by auto
  qed
  then show "cache_valid (snd (load_all_data y m n uc smp agg w))"
    and "fst (load_all_data y m n uc smp agg w) = Inr (Some d) \<Longrightarrow> r \<in> set (raw d) \<Longrightarrow> valid_trip r"
    by blast+
qed

text \<open>
  Claim C6. Every row of the table that \<open>_clean_taxi_data\<close> returns has both datetimes
  present, fare in (0, 300], distance in (0, 100], passenger count in (0, 8] and
  duration in (0, 480]. The invariant reaches the shared table: when every cache file
  that unpickles holds rows within the ranges, so does the table \<open>load_all_data\<close>
  returns, so does every cache file after the call, and so does the frame \<open>taxi_df\<close>
  refers to when the process serves.
\<close>

theorem cleaned_rows_in_range:
  "(\<forall>r\<in>set (clean_taxi_data df). valid_trip r) \<and>
   (cache_valid w \<longrightarrow>
      cache_valid (snd (load_all_data y m n uc smp agg w)) \<and>
      (\<forall>d. fst (load_all_data y m n uc smp agg w) = Inr (Some d) \<longrightarrow>
           (\<forall>r\<in>set (raw d). valid_trip r)) \<and>
      (\<forall>st. fst (startup smp agg w) = Serving st \<longrightarrow>
           (\<forall>r\<in>set (frames st (taxi_df st)). valid_trip r)))"
proof (intro conjI impI allI ballI)
  fix r assume "r \<in> set (clean_taxi_data df)"
  then show "valid_trip r" by (rule clean_taxi_data_valid)
next
  assume "cache_valid w"
  then show "cache_valid (snd (load_all_data y m n uc smp agg w))"
    by (rule load_all_data_valid(1))
next
  fix d r assume "cache_valid w" "fst (load_all_data y m n uc smp agg w) = Inr (Some d)" "r \<in> set (raw d)"
  then show "valid_trip r" by (rule load_all_data_valid(2))
next
  fix st r
  assume cv: "cache_valid w" and s: "fst (startup smp agg w) = Serving st"
    and r: "r \<in> set (frames st (taxi_df st))"
  let ?w = "print_line ''Loading data...'' w"
  from cv have cv': "cache_valid ?w" by (simp add: cache_valid_def)
  from s obtain d where d: "fst (load_all_data 2023 1 50000 True smp agg ?w) = Inr (Some d)"
    and st: "st = app_init (raw d)"
    by (auto simp: startup_def split: prod.splits sum.splits option.splits)
  from st r have "r \<in> set (raw d)" by (simp add: app_init_def)
  with cv' d show "valid_trip r" by (rule load_all_data_valid(2))
qed


lemma parquet_load_fails_agree: "agree w w' \<Longrightarrow> parquet_load_fails w' y m = parquet_load_fails w y m"
  by (auto simp: agree_def parquet_load_fails_def split: option.splits)

lemma load_taxi_data_reads:
  assumes "raw_files w (y, m) = Some (Parquet rows)"
  shows "fst (load_taxi_data y m n smp w) =
           clean_taxi_data (if length rows > n then smp n rows else rows)"
  using assms by (simp add: load_taxi_data_alt fetch_parquet_def read_parquet_def Let_def)

lemma load_taxi_data_downloads:
  assumes "raw_files w (y, m) = None" "parquet_url w (y, m) = PqBody (Parquet rows)" "raw_writable w"
  shows "fst (load_taxi_data y m n smp w) =
           clean_taxi_data (if length rows > n then smp n rows else rows)"
  using assms by (simp add: load_taxi_data_alt fetch_parquet_def read_parquet_def Let_def)

lemma load_taxi_data_again:
  assumes "fst (load_taxi_data y m n smp w) \<noteq> []"
    and "raw_files w' (y, m) = raw_files (snd (load_taxi_data y m n smp w)) (y, m)"
  shows "fst (load_taxi_data y m n smp w') = fst (load_taxi_data y m n smp w)"
proof -
  let ?p = "fetch_parquet y m (print_line ''Loading NYC Taxi Data'' w)"
  from assms(1) obtain rows where rows: "fst ?p = Inr rows"
    by (auto simp: load_taxi_data_alt Let_def split: sum.splits)
  then have "raw_files (snd ?p) (y, m) = Some (Parquet rows)"
    by (rule fetch_parquet_cached)
  with assms(2) rows have "raw_files w' (y, m) = Some (Parquet rows)"
    by (simp add: load_taxi_data_alt Let_def)
  from load_taxi_data_reads[OF this, of n smp] rows show ?thesis
    by (simp add: load_taxi_data_alt Let_def)
qed

lemma download_and_process_raw_files:
  "raw_files (snd (download_and_process y m n smp agg w)) =
     raw_files (snd (load_taxi_data y m n smp w))"
  by (simp add: download_and_process_alt Let_def split: sum.splits)

lemma download_and_process_succeeds:
  assumes "fst (load_taxi_data y m n smp w) \<noteq> []"
    and "create_zone_lookup (fst (load_nyc_zones_geojson (snd (load_taxi_data y m n smp w)))) = Inr zl"
  shows "\<exists>d. fst (download_and_process y m n smp agg w) = Inr (Some d)"
  using assms processed_result[of y m n agg]
  by (simp add: download_and_process_alt Let_def) blast

lemma startup_alt:
  "startup smp agg w =
     (let l = load_all_data 2023 1 50000 True smp agg (print_line ''Loading data...'' w)
      in case fst l of
           Inl e \<Rightarrow> (Crashed e, snd l)
         | Inr None \<Rightarrow> (Exited 1, print_line ''Failed to load data. Exiting.'' (snd l))
         | Inr (Some d) \<Rightarrow>
             (Serving (app_init (raw d)), print_line ''Data loaded successfully!'' (snd l)))"
  by (simp add: startup_def Let_def split: prod.splits sum.splits option.splits)

lemma startup_parquet_fails:
  assumes "\<forall>d. cache_files w (2023, 1, 50000) \<noteq> Some (Pickle d)" "parquet_load_fails w 2023 1"
  shows "fst (startup smp agg w) = Exited 1"
    and "''Error loading taxi data'' \<in> set (stdout (snd (startup smp agg w)))"
    and "last (stdout (snd (startup smp agg w))) = ''Failed to load data. Exiting.''"
proof -
  let ?w0 = "print_line ''Loading data...'' w"
  let ?l = "load_all_data 2023 1 50000 True smp agg ?w0"
  have r: "fst ?l = Inr None \<and> ''Error loading taxi data'' \<in> set (stdout (snd ?l))"
  proof (cases rule: load_all_data_cases[where uc=True and w="?w0" and y=2023 and m=1 and n=50000
        and smp=smp and agg=agg])
    case (hit d)
    with assms show ?thesis by simp
  next
    case (fresh w')
    from fresh(1) have "agree w w'" by simp
    with assms have "parquet_load_fails w' 2023 1"
      by (simp add: parquet_load_fails_agree)
    from download_and_process_fails[OF this, of 50000 smp agg] fresh(7) show ?thesis by simp
  qed
  then have s: "startup smp agg w = (Exited 1, print_line ''Failed to load data. Exiting.'' (snd ?l))"
    by (simp add: startup_alt Let_def)
  show "fst (startup smp agg w) = Exited 1"
    and "''Error loading taxi data'' \<in> set (stdout (snd (startup smp agg w)))"
    and "last (stdout (snd (startup smp agg w))) = ''Failed to load data. Exiting.''"
    using r by (simp_all add: s)
qed

lemma startup_geojson_fails:
  assumes "\<forall>d. cache_files w (2023, 1, 50000) \<noteq> Some (Pickle d)"
    "\<forall>fs. geojson_url w \<noteq> GjBody fs" "fst (load_taxi_data 2023 1 50000 smp w) \<noteq> []"
  shows "serving (fst (startup smp agg w))"
    and "''Error loading GeoJSON'' \<in> set (stdout (snd (startup smp agg w)))"
proof -
  let ?w0 = "print_line ''Loading data...'' w"
  let ?l = "load_all_data 2023 1 50000 True smp agg ?w0"
  have r: "(\<exists>d. fst ?l = Inr (Some d)) \<and> ''Error loading GeoJSON'' \<in> set (stdout (snd ?l))"
  proof (cases rule: load_all_data_cases[where uc=True and w="?w0" and y=2023 and m=1 and n=50000
        and smp=smp and agg=agg])
    case (hit d)
    with assms show ?thesis by simp
  next
    case (fresh w')
    from fresh(1) have ag: "agree w w'" by simp
    then have g: "\<forall>fs. geojson_url w' \<noteq> GjBody fs"
      using assms by (simp add: agree_def)
    from load_taxi_data_agree[OF ag, of 2023 1 50000 smp] assms
    have t: "fst (load_taxi_data 2023 1 50000 smp w') \<noteq> []" by simp
    from download_and_process_geojson_fails[OF g t, of agg] fresh(7) show ?thesis by auto
  qed
  then obtain d where d: "fst ?l = Inr (Some d)" by blast
  then have s: "startup smp agg w =
      (Serving (app_init (raw d)), print_line ''Data loaded successfully!'' (snd ?l))"
    by (simp add: startup_alt Let_def)
  show "serving (fst (startup smp agg w))"
    and "''Error loading GeoJSON'' \<in> set (stdout (snd (startup smp agg w)))"
    using r by (simp_all add: s serving_def)
qed

lemma example_clean_nonempty: "clean_taxi_data example_raw \<noteq> []"
  by code_simp

lemma example_raw_length: "length example_raw = 4"
  by (simp add: example_raw_def)

lemma example_world_taxi:
  assumes "raw_files w = raw_files example_world" "parquet_url w = parquet_url example_world"
    "raw_writable w = raw_writable example_world"
  shows "fst (load_taxi_data 2023 1 50000 smp w) = clean_taxi_data example_raw"
proof -
  have "raw_files w (2023, 1) = None" "parquet_url w (2023, 1) = PqBody (Parquet example_raw)"
    "raw_writable w"
    using assms by (simp_all add: example_world_def)
  from load_taxi_data_downloads[OF this, of 50000 smp] show ?thesis
    by (simp add: example_raw_length)
qed

lemma load_taxi_data_source:
  "fst (load_taxi_data y m n smp w) =
     (case source_table w y m of
        None \<Rightarrow> []
      | Some rows \<Rightarrow> clean_taxi_data (if length rows > n then smp n rows else rows))"
  by (simp add: load_taxi_data_alt fetch_parquet_def read_parquet_def source_table_def Let_def
      split: option.splits parquet_file.splits parquet_response.splits)

lemma load_taxi_data_on_disk:
  "source_table w y m = Some rows \<Longrightarrow>
     raw_files (snd (load_taxi_data y m n smp w)) (y, m) = Some (Parquet rows)"
  by (auto simp: load_taxi_data_alt fetch_parquet_def read_parquet_def source_table_def Let_def
      split: option.splits parquet_file.splits parquet_response.splits if_splits)

lemma download_and_process_result:
  "fst (download_and_process y m n smp agg w) =
     (let cleaned = fst (load_taxi_data y m n smp w);
          gj = (case geojson_url w of GjBody fs \<Rightarrow> Some fs | _ \<Rightarrow> None)
      in if cleaned = [] then Inr None
         else (case create_zone_lookup gj of
                 Inl e \<Rightarrow> Inl e
               | Inr zl \<Rightarrow>
                  (let taxi = enrich_taxi_data_with_zones cleaned zl;
                       merged = concat (map (merge_row (generate_synthetic_weather taxi (random_state w))) taxi)
                   in Inr (Some \<lparr>raw = merged, geojson = gj, zone_lookup = zl,
                                 aggregations = agg merged\<rparr>))))"
  by (simp add: download_and_process_alt processed_def Let_def load_nyc_zones_geojson_result
      split: sum.splits)


lemma source_table_agree: "agree w w' \<Longrightarrow> source_table w' y m = source_table w y m"
  by (auto simp: agree_def source_table_def
      split: option.splits parquet_response.splits parquet_file.splits)

lemma merged_length:
  "length (concat (map (merge_row (generate_synthetic_weather df draws)) df)) = length df"
  using merge_row_generated[of _ df draws] by (intro concat_singletons) blast

text \<open>
  Claim C5. When the cache file exists and cannot be unpickled, \<open>load_all_data\<close>
  recomputes from source. It requests the parquet file unless the local raw file
  exists, and the GeoJSON when the cleaned table is not empty; the trip records it
  obtained are on the local disk afterwards; and it returns \<open>None\<close> when the cleaned table
  is empty, else the package of the cleaned table enriched with the zone lookup and
  joined with the generated weather, the GeoJSON, the lookup and the aggregations of
  that table (or ends with the exception of \<open>create_zone_lookup\<close>). This is what it
  returns when there is no cache file; whether the cache file can be written
  afterwards does not change what is returned; and with \<open>use_cache\<close> the failure is
  reported on the console.
\<close>

theorem cache_read_failure_falls_back:
  assumes "cache_files w (y, m, n) = Some NotPickle"
  shows "fst (load_all_data y m n uc smp agg w) =
           fst (load_all_data y m n uc smp agg (w\<lparr>cache_files := (cache_files w)((y, m, n) := None)\<rparr>)) \<and>
         fst (load_all_data y m n uc smp agg w) = fst (download_and_process y m n smp agg w) \<and>
         fst (load_all_data y m n uc smp agg (w\<lparr>cache_writable := False\<rparr>)) =
           fst (load_all_data y m n uc smp agg (w\<lparr>cache_writable := True\<rparr>)) \<and>
         (uc \<longrightarrow> ''Cache load failed. Downloading fresh data...''
                   \<in> set (stdout (snd (load_all_data y m n uc smp agg w)))) \<and>
         (let cleaned = (case source_table w y m of
                           None \<Rightarrow> []
                         | Some rows \<Rightarrow>
                             clean_taxi_data (if length rows > n then smp n rows else rows));
              gj = (case geojson_url w of GjBody fs \<Rightarrow> Some fs | _ \<Rightarrow> None)
          in requests (snd (load_all_data y m n uc smp agg w)) =
               requests w @ (if raw_files w (y, m) = None then [ParquetUrl y m] else []) @
                 (if cleaned = [] then [] else [GeoJsonUrl]) \<and>
             (cleaned = [] \<longrightarrow> fst (load_all_data y m n uc smp agg w) = Inr None) \<and>
             (cleaned \<noteq> [] \<longrightarrow>
                (case create_zone_lookup gj of
                   Inl e \<Rightarrow> fst (load_all_data y m n uc smp agg w) = Inl e
                 | Inr zl \<Rightarrow>
                     (\<exists>merged.
                        merge_weather_data (enrich_taxi_data_with_zones cleaned zl)
                          (generate_synthetic_weather (enrich_taxi_data_with_zones cleaned zl)
                             (random_state w)) = Inr merged \<and>
                        length merged = length cleaned \<and>
                        fst (load_all_data y m n uc smp agg w) =
                          Inr (Some \<lparr>raw = merged, geojson = gj, zone_lookup = zl,
                                     aggregations = agg merged\<rparr>))))) \<and>
         (\<forall>rows. source_table w y m = Some rows \<longrightarrow>
            raw_files (snd (load_all_data y m n uc smp agg w)) (y, m) = Some (Parquet rows))"
proof -
  let ?L = "load_all_data y m n uc smp agg w"
  let ?cleaned = "case source_table w y m of
                    None \<Rightarrow> []
                  | Some rows \<Rightarrow> clean_taxi_data (if length rows > n then smp n rows else rows)"
  let ?gj = "case geojson_url w of GjBody fs \<Rightarrow> Some fs | _ \<Rightarrow> None"
  have dp: "fst (load_all_data y m n uc smp agg v) = fst (download_and_process y m n smp agg w)"
    if "agree w v" "\<forall>d. cache_files v (y, m, n) \<noteq> Some (Pickle d)" for v :: "'a world"
  proof (cases rule: load_all_data_cases[where uc=uc and w=v and y=y and m=m and n=n and smp=smp and agg=agg])
    case (hit d)
    with that show ?thesis by simp
  next
    case (fresh w')
    from that(1) fresh(1) have "agree w w'" by (simp add: agree_def)
    from download_and_process_agree[OF this, of y m n smp agg] fresh(7) show ?thesis by simp
  qed
  have 1: "fst ?L = fst (download_and_process y m n smp agg w)"
    using assms by (intro dp) simp_all
  have 2: "fst (load_all_data y m n uc smp agg (w\<lparr>cache_files := (cache_files w)((y, m, n) := None)\<rparr>)) =
           fst (download_and_process y m n smp agg w)"
    by (intro dp) (simp_all add: agree_def)
  have 3: "fst (load_all_data y m n uc smp agg (w\<lparr>cache_writable := b\<rparr>)) =
           fst (download_and_process y m n smp agg w)" for b
    using assms by (intro dp) (simp_all add: agree_def)
  obtain w' where w': "agree w w'" "requests w' = requests w"
      "uc \<longrightarrow> ''Cache load failed. Downloading fresh data...'' \<in> set (stdout w')"
      "?L = download_and_process y m n smp agg w'"
  proof (cases rule: load_all_data_cases[where uc=uc and w=w and y=y and m=m and n=n and smp=smp and agg=agg])
    case (hit d)
    with assms show ?thesis by simp
  next
    case (fresh v)
    with assms that show ?thesis by simp
  qed
  have 4: "''Cache load failed. Downloading fresh data...'' \<in> set (stdout (snd ?L))" if uc
  proof -
    obtain out where "stdout (snd (download_and_process y m n smp agg w')) = stdout w' @ out"
      using download_and_process_stdout by blast
    with that w' show ?thesis by simp
  qed
  have cl: "fst (load_taxi_data y m n smp w) = ?cleaned"
    by (rule load_taxi_data_source)
  from load_taxi_data_agree[OF w'(1), of y m n smp]
  have cl': "fst (load_taxi_data y m n smp w') = ?cleaned"
    by (simp add: cl)
  from w'(1) have rf: "raw_files w' = raw_files w"
    by (simp add: agree_def)
  have 5: "requests (snd ?L) =
             requests w @ (if raw_files w (y, m) = None then [ParquetUrl y m] else []) @
               (if ?cleaned = [] then [] else [GeoJsonUrl])"
    by (simp only: w'(4) download_and_process_requests cl' rf w'(2))
  have 6: "fst ?L = Inr None" if "?cleaned = []"
    using that by (simp add: 1 download_and_process_result cl)
  have 7: "case create_zone_lookup ?gj of
             Inl e \<Rightarrow> fst ?L = Inl e
           | Inr zl \<Rightarrow>
               (\<exists>merged.
                  merge_weather_data (enrich_taxi_data_with_zones ?cleaned zl)
                    (generate_synthetic_weather (enrich_taxi_data_with_zones ?cleaned zl)
                       (random_state w)) = Inr merged \<and>
                  length merged = length ?cleaned \<and>
                  fst ?L = Inr (Some \<lparr>raw = merged, geojson = ?gj, zone_lookup = zl,
                                       aggregations = agg merged\<rparr>))"
    if ne: "?cleaned \<noteq> []"
  proof (cases "create_zone_lookup ?gj")
    case (Inl e)
    with ne show ?thesis
      by (simp add: 1 download_and_process_result cl Let_def)
  next
    case (Inr zl)
    let ?taxi = "enrich_taxi_data_with_zones ?cleaned zl"
    let ?merged = "concat (map (merge_row (generate_synthetic_weather ?taxi (random_state w))) ?taxi)"
    from ne have "?taxi \<noteq> []" by (rule enrich_nonempty)
    then have m: "merge_weather_data ?taxi (generate_synthetic_weather ?taxi (random_state w)) = Inr ?merged"
      by (rule merge_generated)
    have l: "length ?merged = length ?cleaned"
      by (simp add: merged_length) (simp add: enrich_taxi_data_with_zones_def)
    from ne Inr have r: "fst ?L = Inr (Some \<lparr>raw = ?merged, geojson = ?gj, zone_lookup = zl,
                                       aggregations = agg ?merged\<rparr>)"
      by (simp add: 1 download_and_process_result cl Let_def)
    from m l r have "\<exists>merged.
                  merge_weather_data ?taxi (generate_synthetic_weather ?taxi (random_state w)) = Inr merged \<and>
                  length merged = length ?cleaned \<and>
                  fst ?L = Inr (Some \<lparr>raw = merged, geojson = ?gj, zone_lookup = zl,
                                       aggregations = agg merged\<rparr>)"
      by blast
    with Inr show ?thesis by simp
  qed
  have 8: "raw_files (snd ?L) (y, m) = Some (Parquet rows)" if "source_table w y m = Some rows" for rows
  proof -
    from that w'(1) have "source_table w' y m = Some rows"
      by (simp add: source_table_agree)
    then have "raw_files (snd (load_taxi_data y m n smp w')) (y, m) = Some (Parquet rows)"
      by (rule load_taxi_data_on_disk)
    then show ?thesis
      by (simp add: w'(4) download_and_process_raw_files)
  qed
  from 5 6 7 have 9: "(let cleaned = ?cleaned; gj = ?gj
          in requests (snd ?L) =
               requests w @ (if raw_files w (y, m) = None then [ParquetUrl y m] else []) @
                 (if cleaned = [] then [] else [GeoJsonUrl]) \<and>
             (cleaned = [] \<longrightarrow> fst ?L = Inr None) \<and>
             (cleaned \<noteq> [] \<longrightarrow>
                (case create_zone_lookup gj of
                   Inl e \<Rightarrow> fst ?L = Inl e
                 | Inr zl \<Rightarrow>
                     (\<exists>merged.
                        merge_weather_data (enrich_taxi_data_with_zones cleaned zl)
                          (generate_synthetic_weather (enrich_taxi_data_with_zones cleaned zl)
                             (random_state w)) = Inr merged \<and>
                        length merged = length cleaned \<and>
                        fst ?L =
                          Inr (Some \<lparr>raw = merged, geojson = gj, zone_lookup = zl,
                                     aggregations = agg merged\<rparr>)))))"
    unfolding Let_def by blast
  have c1: "fst ?L =
      fst (load_all_data y m n uc smp agg (w\<lparr>cache_files := (cache_files w)((y, m, n) := None)\<rparr>))"
    using 1 2 by simp
  have c3: "fst (load_all_data y m n uc smp agg (w\<lparr>cache_writable := False\<rparr>)) =
      fst (load_all_data y m n uc smp agg (w\<lparr>cache_writable := True\<rparr>))"
    using 3[of False] 3[of True] by simp
  have c4: "uc \<longrightarrow> ''Cache load failed. Downloading fresh data...'' \<in> set (stdout (snd ?L))"
    using 4 by blast
  have c8: "\<forall>rows. source_table w y m = Some rows \<longrightarrow>
      raw_files (snd ?L) (y, m) = Some (Parquet rows)"
    using 8 by blast
  show ?thesis
    by (rule conjI[OF c1 conjI[OF 1 conjI[OF c3 conjI[OF c4 conjI[OF 9 c8]]]]])
qed

lemma with_weather_zones [simp]:
  "pickup_zone (with_weather r t b p) = pickup_zone r"
  "pickup_borough (with_weather r t b p) = pickup_borough r"
  "dropoff_zone (with_weather r t b p) = dropoff_zone r"
  "dropoff_borough (with_weather r t b p) = dropoff_borough r"
  by (simp_all add: with_weather_def zoned_trip.defs trip.defs)

lemma merge_row_zones:
  assumes "x \<in> set (merge_row wdf r)"
  shows "pickup_zone x = pickup_zone r \<and> pickup_borough x = pickup_borough r \<and>
         dropoff_zone x = dropoff_zone r \<and> dropoff_borough x = dropoff_borough r"
  using assms by (auto simp: merge_row_def split: list.splits)

lemma processed_unknown_zones:
  assumes "fst (processed y m n agg cleaned gj Map.empty w) = Inr (Some d)" "r \<in> set (raw d)"
  shows "pickup_zone r = JStr ''Unknown'' \<and> pickup_borough r = JStr ''Unknown'' \<and>
         dropoff_zone r = JStr ''Unknown'' \<and> dropoff_borough r = JStr ''Unknown''"
proof -
  let ?taxi = "enrich_taxi_data_with_zones cleaned Map.empty"
  from assms obtain z where z: "z \<in> set ?taxi"
    "r \<in> set (merge_row (generate_synthetic_weather ?taxi (random_state w)) z)"
    by (auto simp: processed_def Let_def)
  from z(1) obtain c where "z = enrich_row Map.empty c"
    by (auto simp: enrich_taxi_data_with_zones_def)
  then have "pickup_zone z = JStr ''Unknown'' \<and> pickup_borough z = JStr ''Unknown'' \<and>
         dropoff_zone z = JStr ''Unknown'' \<and> dropoff_borough z = JStr ''Unknown''"
    by (simp add: enrich_row_zones zone_field_miss)
  with merge_row_zones[OF z(2)] show ?thesis by simp
qed

lemma download_and_process_geojson_caught:
  assumes "\<forall>fs. geojson_url w \<noteq> GjBody fs" "fst (load_taxi_data y m n smp w) \<noteq> []"
  shows "\<exists>d. fst (download_and_process y m n smp agg w) = Inr (Some d) \<and>
              geojson d = None \<and> zone_lookup d = Map.empty \<and>
              (\<forall>r\<in>set (raw d).
                 pickup_zone r = JStr ''Unknown'' \<and> pickup_borough r = JStr ''Unknown'' \<and>
                 dropoff_zone r = JStr ''Unknown'' \<and> dropoff_borough r = JStr ''Unknown'')"
proof -
  let ?w1 = "snd (load_taxi_data y m n smp w)"
  let ?g = "load_nyc_zones_geojson ?w1"
  let ?p = "processed y m n agg (fst (load_taxi_data y m n smp w)) None Map.empty (snd ?g)"
  from assms(1) have gj: "fst ?g = None"
    by (simp add: load_nyc_zones_geojson_result split: geojson_response.splits)
  have dp: "download_and_process y m n smp agg w = ?p"
    using assms(2) by (simp add: download_and_process_alt Let_def gj create_zone_lookup_def)
  from processed_result[of y m n agg "fst (load_taxi_data y m n smp w)" None Map.empty "snd ?g"]
  obtain d where d: "fst ?p = Inr (Some d)" "geojson d = None" "zone_lookup d = Map.empty"
    by blast
  from processed_unknown_zones[OF d(1)] d show ?thesis
    unfolding dp by blast
qed

lemma download_and_process_crashes:
  assumes "geojson_url w = GjBody fs" "create_zone_lookup (Some fs) = Inl e"
    "fst (load_taxi_data y m n smp w) \<noteq> []"
  shows "fst (download_and_process y m n smp agg w) = Inl e"
  using assms
  by (simp add: download_and_process_alt Let_def load_nyc_zones_geojson_result)

lemma startup_geojson_caught:
  assumes "\<forall>d. cache_files w (2023, 1, 50000) \<noteq> Some (Pickle d)"
    "\<forall>fs. geojson_url w \<noteq> GjBody fs" "fst (load_taxi_data 2023 1 50000 smp w) \<noteq> []"
  shows "\<exists>d. fst (load_all_data 2023 1 50000 True smp agg (print_line ''Loading data...'' w)) =
                Inr (Some d) \<and>
              geojson d = None \<and> zone_lookup d = Map.empty \<and>
              (\<forall>r\<in>set (raw d).
                 pickup_zone r = JStr ''Unknown'' \<and> pickup_borough r = JStr ''Unknown'' \<and>
                 dropoff_zone r = JStr ''Unknown'' \<and> dropoff_borough r = JStr ''Unknown'') \<and>
              fst (startup smp agg w) = Serving (app_init (raw d))"
proof -
  let ?w0 = "print_line ''Loading data...'' w"
  let ?l = "load_all_data 2023 1 50000 True smp agg ?w0"
  have "\<exists>d. fst ?l = Inr (Some d) \<and> geojson d = None \<and> zone_lookup d = Map.empty \<and>
              (\<forall>r\<in>set (raw d).
                 pickup_zone r = JStr ''Unknown'' \<and> pickup_borough r = JStr ''Unknown'' \<and>
                 dropoff_zone r = JStr ''Unknown'' \<and> dropoff_borough r = JStr ''Unknown'')"
  proof (cases rule: load_all_data_cases[where uc=True and w="?w0" and y=2023 and m=1 and n=50000
        and smp=smp and agg=agg])
    case (hit d)
    with assms show ?thesis by simp
  next
    case (fresh w')
    from fresh(1) have ag: "agree w w'" by simp
    then have g: "\<forall>fs. geojson_url w' \<noteq> GjBody fs"
      using assms by (simp add: agree_def)
    from load_taxi_data_agree[OF ag, of 2023 1 50000 smp] assms
    have t: "fst (load_taxi_data 2023 1 50000 smp w') \<noteq> []" by simp
    from download_and_process_geojson_caught[OF g t, of agg] fresh(7) show ?thesis by simp
  qed
  then obtain d where d: "fst ?l = Inr (Some d)" "geojson d = None" "zone_lookup d = Map.empty"
    "\<forall>r\<in>set (raw d).
                 pickup_zone r = JStr ''Unknown'' \<and> pickup_borough r = JStr ''Unknown'' \<and>
                 dropoff_zone r = JStr ''Unknown'' \<and> dropoff_borough r = JStr ''Unknown''"
    by blast
  from d(1) have "fst (startup smp agg w) = Serving (app_init (raw d))"
    by (simp add: startup_alt Let_def)
  with d show ?thesis by blast
qed

lemma startup_crashes:
  assumes "\<forall>d. cache_files w (2023, 1, 50000) \<noteq> Some (Pickle d)"
    "geojson_url w = GjBody fs" "create_zone_lookup (Some fs) = Inl e"
    "fst (load_taxi_data 2023 1 50000 smp w) \<noteq> []"
  shows "fst (startup smp agg w) = Crashed e"
proof -
  let ?w0 = "print_line ''Loading data...'' w"
  let ?l = "load_all_data 2023 1 50000 True smp agg ?w0"
  have "fst ?l = Inl e"
  proof (cases rule: load_all_data_cases[where uc=True and w="?w0" and y=2023 and m=1 and n=50000
        and smp=smp and agg=agg])
    case (hit d)
    with assms show ?thesis by simp
  next
    case (fresh w')
    from fresh(1) have ag: "agree w w'" by simp
    then have g: "geojson_url w' = GjBody fs"
      using assms by (simp add: agree_def)
    from load_taxi_data_agree[OF ag, of 2023 1 50000 smp] assms
    have t: "fst (load_taxi_data 2023 1 50000 smp w') \<noteq> []" by simp
    from download_and_process_crashes[OF g assms(3) t, of agg] fresh(7) show ?thesis by simp
  qed
  then show ?thesis
    by (simp add: startup_alt Let_def)
qed

text \<open>The GeoJSON request fails, and the process serves all the same.\<close>

theorem geojson_failure_counterexample:
  "serving (fst (startup (\<lambda>n. take n) length (example_world\<lparr>geojson_url := GjConnectionError\<rparr>)))"
proof -
  let ?w = "example_world\<lparr>geojson_url := GjConnectionError\<rparr>"
  have 1: "\<forall>d. cache_files ?w (2023, 1, 50000) \<noteq> Some (Pickle d)"
    by (simp add: example_world_def)
  have 2: "\<forall>fs. geojson_url ?w \<noteq> GjBody fs"
    by simp
  have 3: "fst (load_taxi_data 2023 1 50000 (\<lambda>n. take n) ?w) \<noteq> []"
    by (simp add: example_world_taxi example_clean_nonempty)
  from 1 2 3 show ?thesis by (rule startup_geojson_fails(1))
qed

text \<open>
  Claim C3, amended. When no cache snapshot is read: a network or parse failure of
  the parquet load makes the process print the error and exit with status 1. With
  the taxi table loaded and not empty, a failure that \<open>load_nyc_zones_geojson\<close> catches
  (the request fails, the status is an error, the body is not JSON or has no
  features) is printed, the zone lookup is empty, every zone field of the table is
  \<open>'Unknown'\<close>, and the process goes on to serve; a zone file that was fetched but makes
  \<open>create_zone_lookup\<close> raise (a feature whose \<open>properties\<close> member is missing or null)
  ends the process with that exception, and it does not serve.
\<close>

theorem parquet_failure_aborts:
  "((\<forall>d. cache_files w (2023, 1, 50000) \<noteq> Some (Pickle d)) \<and> parquet_load_fails w 2023 1 \<longrightarrow>
      fst (startup smp agg w) = Exited 1 \<and>
      ''Error loading taxi data'' \<in> set (stdout (snd (startup smp agg w))) \<and>
      last (stdout (snd (startup smp agg w))) = ''Failed to load data. Exiting.'') \<and>
   ((\<forall>d. cache_files w (2023, 1, 50000) \<noteq> Some (Pickle d)) \<and>
    (\<forall>fs. geojson_url w \<noteq> GjBody fs) \<and> fst (load_taxi_data 2023 1 50000 smp w) \<noteq> [] \<longrightarrow>
      serving (fst (startup smp agg w)) \<and>
      ''Error loading GeoJSON'' \<in> set (stdout (snd (startup smp agg w))) \<and>
      (\<exists>d. fst (load_all_data 2023 1 50000 True smp agg (print_line ''Loading data...'' w)) =
              Inr (Some d) \<and>
           geojson d = None \<and> zone_lookup d = Map.empty \<and>
           (\<forall>r\<in>set (raw d).
              pickup_zone r = JStr ''Unknown'' \<and> pickup_borough r = JStr ''Unknown'' \<and>
              dropoff_zone r = JStr ''Unknown'' \<and> dropoff_borough r = JStr ''Unknown'') \<and>
           fst (startup smp agg w) = Serving (app_init (raw d)))) \<and>
   ((\<forall>d. cache_files w (2023, 1, 50000) \<noteq> Some (Pickle d)) \<and>
    geojson_url w = GjBody fs \<and> create_zone_lookup (Some fs) = Inl e \<and>
    fst (load_taxi_data 2023 1 50000 smp w) \<noteq> [] \<longrightarrow>
      fst (startup smp agg w) = Crashed e \<and> \<not> serving (fst (startup smp agg w)))"
proof (intro conjI impI)
  assume a: "(\<forall>d. cache_files w (2023, 1, 50000) \<noteq> Some (Pickle d)) \<and> parquet_load_fails w 2023 1"
  then show "fst (startup smp agg w) = Exited 1"
    and "''Error loading taxi data'' \<in> set (stdout (snd (startup smp agg w)))"
    and "last (stdout (snd (startup smp agg w))) = ''Failed to load data. Exiting.''"
    using startup_parquet_fails[of w smp agg] by blast+
next
  assume b: "(\<forall>d. cache_files w (2023, 1, 50000) \<noteq> Some (Pickle d)) \<and>
    (\<forall>fs. geojson_url w \<noteq> GjBody fs) \<and> fst (load_taxi_data 2023 1 50000 smp w) \<noteq> []"
  then show "serving (fst (startup smp agg w))"
    and "''Error loading GeoJSON'' \<in> set (stdout (snd (startup smp agg w)))"
    using startup_geojson_fails[of w smp agg] by blast+
  from b show "\<exists>d. fst (load_all_data 2023 1 50000 True smp agg (print_line ''Loading data...'' w)) =
              Inr (Some d) \<and>
           geojson d = None \<and> zone_lookup d = Map.empty \<and>
           (\<forall>r\<in>set (raw d).
              pickup_zone r = JStr ''Unknown'' \<and> pickup_borough r = JStr ''Unknown'' \<and>
              dropoff_zone r = JStr ''Unknown'' \<and> dropoff_borough r = JStr ''Unknown'') \<and>
           fst (startup smp agg w) = Serving (app_init (raw d))"
    using startup_geojson_caught[of w smp agg] by blast
next
  assume c: "(\<forall>d. cache_files w (2023, 1, 50000) \<noteq> Some (Pickle d)) \<and>
    geojson_url w = GjBody fs \<and> create_zone_lookup (Some fs) = Inl e \<and>
    fst (load_taxi_data 2023 1 50000 smp w) \<noteq> []"
  then have s: "fst (startup smp agg w) = Crashed e"
    using startup_crashes[of w fs e smp agg] by blast
  then show "fst (startup smp agg w) = Crashed e" .
  from s show "\<not> serving (fst (startup smp agg w))"
    by (simp add: serving_def)
qed

text \<open>Two loads in a row with \<open>use_cache=False\<close>: the GeoJSON is requested twice.\<close>

theorem geojson_fetched_again_counterexample:
  "requests (snd (load_all_data 2023 1 50000 False (\<lambda>n. take n) length
              (snd (load_all_data 2023 1 50000 False (\<lambda>n. take n) length example_world)))) =
     [ParquetUrl 2023 1, GeoJsonUrl, GeoJsonUrl]"
proof -
  let ?dp = "download_and_process 2023 1 50000 (\<lambda>n. take n) length"
  let ?lt = "load_taxi_data 2023 1 50000 (\<lambda>n. take n)"
  have l: "load_all_data 2023 1 50000 False (\<lambda>n. take n) length w = ?dp w" for w :: "nat world"
    by (simp add: load_all_data_def)
  have t: "fst (?lt example_world) \<noteq> []"
    by (simp add: example_world_taxi example_clean_nonempty)
  have r1: "requests (snd (?dp example_world)) = [ParquetUrl 2023 1, GeoJsonUrl]"
    using t by (simp add: download_and_process_requests) (simp add: example_world_def)
  have f: "raw_files (snd (?dp example_world)) (2023, 1) = raw_files (snd (?lt example_world)) (2023, 1)"
    by (simp add: download_and_process_raw_files)
  from load_taxi_data_again[OF t f] t
  have t2: "fst (?lt (snd (?dp example_world))) \<noteq> []" by simp
  from load_taxi_data_cached[OF t] f
  have f2: "raw_files (snd (?dp example_world)) (2023, 1) \<noteq> None" by simp
  have "requests (snd (?dp (snd (?dp example_world)))) = [ParquetUrl 2023 1, GeoJsonUrl, GeoJsonUrl]"
    using t2 f2 by (simp add: download_and_process_requests[of _ _ _ _ _ "snd (?dp example_world)"] r1)
  then show ?thesis by (simp add: l)
qed

text \<open>
  Claim C4, amended. A parquet file that was downloaded and read is on the local
  disk afterwards, and a load that finds the local file issues no request; so after
  a load of the taxi data that returned rows, a further load issues none. One call
  of \<open>load_all_data\<close> requests each of the two remote inputs at most once. The GeoJSON
  is kept on disk only inside the cache snapshot: after a call that returned a data
  package in a world where the cache file can be written, a call with the same
  parameters and \<open>use_cache\<close> in any world with that cache file returns the same
  package and issues no request.
\<close>

theorem remote_inputs_cached:
  "(fst (fetch_parquet y m w) = Inr rows \<longrightarrow>
      raw_files (snd (fetch_parquet y m w)) (y, m) = Some (Parquet rows)) \<and>
   (raw_files w (y, m) \<noteq> None \<longrightarrow> requests (snd (load_taxi_data y m n smp w)) = requests w) \<and>
   (fst (load_taxi_data y m n smp w) \<noteq> [] \<longrightarrow>
      requests (snd (load_taxi_data y m n smp2 (snd (load_taxi_data y m n smp w)))) =
        requests (snd (load_taxi_data y m n smp w))) \<and>
   (\<exists>rs. requests (snd (load_all_data y m n uc smp agg w)) = requests w @ rs \<and>
         distinct rs \<and> set rs \<subseteq> {ParquetUrl y m, GeoJsonUrl}) \<and>
   (fst (load_all_data y m n uc smp agg w) = Inr (Some d) \<and> cache_writable w \<and>
    cache_files w2 (y, m, n) = cache_files (snd (load_all_data y m n uc smp agg w)) (y, m, n) \<longrightarrow>
      fst (load_all_data y m n True smp2 agg2 w2) = Inr (Some d) \<and>
      requests (snd (load_all_data y m n True smp2 agg2 w2)) = requests w2)"
proof (intro conjI impI)
  assume "fst (fetch_parquet y m w) = Inr rows"
  then show "raw_files (snd (fetch_parquet y m w)) (y, m) = Some (Parquet rows)"
    by (rule fetch_parquet_cached)
next
  assume "raw_files w (y, m) \<noteq> None"
  then show "requests (snd (load_taxi_data y m n smp w)) = requests w"
    by (simp add: load_taxi_data_requests)
next
  assume "fst (load_taxi_data y m n smp w) \<noteq> []"
  then have "raw_files (snd (load_taxi_data y m n smp w)) (y, m) \<noteq> None"
    by (rule load_taxi_data_cached)
  then show "requests (snd (load_taxi_data y m n smp2 (snd (load_taxi_data y m n smp w)))) =
        requests (snd (load_taxi_data y m n smp w))"
    by (simp add: load_taxi_data_requests)
next
  show "\<exists>rs. requests (snd (load_all_data y m n uc smp agg w)) = requests w @ rs \<and>
         distinct rs \<and> set rs \<subseteq> {ParquetUrl y m, GeoJsonUrl}"
    by (rule load_all_data_requests)
next
  assume a: "fst (load_all_data y m n uc smp agg w) = Inr (Some d) \<and> cache_writable w \<and>
    cache_files w2 (y, m, n) = cache_files (snd (load_all_data y m n uc smp agg w)) (y, m, n)"
  then have "cache_files w2 (y, m, n) = Some (Pickle d)"
    using load_all_data_written[of y m n uc smp agg w d] by simp
  then have "load_all_data y m n True smp2 agg2 w2 =
       (Inr (Some d), print_summary (print_line ''Data loaded from cache successfully!''
                        (print_line ''Loading data from cache...'' w2)))"
    by (intro load_all_data_hit) simp_all
  then show "fst (load_all_data y m n True smp2 agg2 w2) = Inr (Some d)"
    and "requests (snd (load_all_data y m n True smp2 agg2 w2)) = requests w2"
    by simp_all
qed


section \<open>The properties on the example data\<close>

lemma example_world_lookup:
  "create_zone_lookup (fst (load_nyc_zones_geojson w)) =
     Inr [JInt 132 \<mapsto> [''zone_name'' \<mapsto> JStr ''JFK Airport'', ''borough'' \<mapsto> JStr ''Queens'']]"
  if "geojson_url w = geojson_url example_world" for w :: "'a world"
  using that
  by (simp add: load_nyc_zones_geojson_result example_world_def create_zone_lookup_def
      example_features_def dict_get_def)

lemma example_world_loads:
  assumes "raw_files w = raw_files example_world" "parquet_url w = parquet_url example_world"
    "raw_writable w = raw_writable example_world" "geojson_url w = geojson_url example_world"
  shows "\<exists>d. fst (download_and_process 2023 1 50000 smp agg w) = Inr (Some d)"
proof -
  have t: "fst (load_taxi_data 2023 1 50000 smp w) \<noteq> []"
    using assms by (simp add: example_world_taxi example_clean_nonempty)
  have "geojson_url (snd (load_taxi_data 2023 1 50000 smp w)) = geojson_url example_world"
    using assms by simp
  from download_and_process_succeeds[OF t example_world_lookup[OF this]] show ?thesis .
qed


theorem remote_inputs_cached_witness:
  "cache_writable example_world \<and>
   loaded (fst (load_all_data 2023 1 50000 True (\<lambda>n. take n) length example_world)) \<and>
   fst (load_all_data 2023 1 50000 True (\<lambda>n. take n) length
          (snd (load_all_data 2023 1 50000 True (\<lambda>n. take n) length example_world))) =
     fst (load_all_data 2023 1 50000 True (\<lambda>n. take n) length example_world) \<and>
   requests (snd (load_all_data 2023 1 50000 True (\<lambda>n. take n) length
          (snd (load_all_data 2023 1 50000 True (\<lambda>n. take n) length example_world)))) =
     requests (snd (load_all_data 2023 1 50000 True (\<lambda>n. take n) length example_world))"
proof -
  let ?l = "load_all_data 2023 1 50000 True (\<lambda>n. take n) length example_world"
  have w: "cache_writable example_world"
    by (simp add: example_world_def)
  have "?l = download_and_process 2023 1 50000 (\<lambda>n. take n) length example_world"
    by (simp add: load_all_data_def example_world_def)
  with example_world_loads[of example_world "\<lambda>n. take n" length]
  obtain d where d: "fst ?l = Inr (Some d)" by auto
  from remote_inputs_cached[of 2023 1 example_world _ 50000 "\<lambda>n. take n" "\<lambda>n. take n" True length d
      "snd ?l" length] d w
  have "fst (load_all_data 2023 1 50000 True (\<lambda>n. take n) length (snd ?l)) = Inr (Some d) \<and>
        requests (snd (load_all_data 2023 1 50000 True (\<lambda>n. take n) length (snd ?l))) = requests (snd ?l)"
    by blast
  with d w show ?thesis by (simp add: loaded_def)
qed


theorem cleaned_rows_in_range_witness:
  "hd (clean_taxi_data example_raw) \<in> set (clean_taxi_data example_raw) \<and>
   valid_trip (hd (clean_taxi_data example_raw)) \<and>
   cache_valid example_world \<and>
   cache_valid (snd (load_all_data 2023 1 50000 True (\<lambda>n. take n) length example_world))"
proof -
  have m: "hd (clean_taxi_data example_raw) \<in> set (clean_taxi_data example_raw)"
    using example_clean_nonempty by simp
  have c: "cache_valid example_world"
    by (simp add: cache_valid_def example_world_def)
  from cleaned_rows_in_range[of example_raw example_world 2023 1 50000 True "\<lambda>n. take n" length] m c
  show ?thesis by blast
qed

lemma example_zoned_dates:
  "list_all (\<lambda>r. date r \<noteq> None) (enrich_taxi_data_with_zones (clean_taxi_data example_raw) Map.empty)"
  by code_simp

theorem weather_join_keeps_rows_witness:
  "enrich_taxi_data_with_zones (clean_taxi_data example_raw) Map.empty \<noteq> [] \<and>
   list_all (\<lambda>r. date r \<noteq> None)
     (enrich_taxi_data_with_zones (clean_taxi_data example_raw) Map.empty) \<and>
   length example_trips = length (enrich_taxi_data_with_zones (clean_taxi_data example_raw) Map.empty) \<and>
   list_all (\<lambda>x. temperature x \<noteq> None \<and> is_rainy x \<noteq> None \<and> precipitation_inches x \<noteq> None)
     example_trips"
proof -
  let ?df = "enrich_taxi_data_with_zones (clean_taxi_data example_raw) Map.empty"
  have ne: "?df \<noteq> []"
    using example_clean_nonempty by (simp add: enrich_taxi_data_with_zones_def)
  have dates: "\<forall>r\<in>set ?df. date r \<noteq> None"
    using example_zoned_dates by (simp add: list_all_iff)
  from weather_join_keeps_rows[of ?df example_draws] ne dates
  obtain merged where
    m: "merge_weather_data ?df (generate_synthetic_weather ?df example_draws) = Inr merged"
    and l: "length merged = length ?df"
    and p: "\<forall>x\<in>set merged. temperature x \<noteq> None \<and> is_rainy x \<noteq> None \<and> precipitation_inches x \<noteq> None"
    by blast
  have g: "generate_synthetic_weather ?df example_draws =
           generate_synthetic_weather (clean_taxi_data example_raw) example_draws"
    by (simp add: generate_synthetic_weather_def enrich_taxi_data_with_zones_def o_def)
  from m have "example_trips = merged"
    by (simp add: example_trips_def g)
  with ne example_zoned_dates l p show ?thesis
    by (simp add: list_all_iff)
qed

lemma example_row_payment: "payment_type (example_raw ! 3) = Some 0"
  by (simp add: example_raw_def)

lemma example_row_location: "PULocationID (hd (clean_taxi_data example_raw)) = 161"
  by code_simp

theorem parquet_failure_aborts_witness:
  "parquet_load_fails (example_world\<lparr>parquet_url := (\<lambda>_. PqConnectionError)\<rparr>) 2023 1 \<and>
   fst (startup (\<lambda>n. take n) length (example_world\<lparr>parquet_url := (\<lambda>_. PqConnectionError)\<rparr>)) =
     Exited 1 \<and>
   fst (load_taxi_data 2023 1 50000 (\<lambda>n. take n) (example_world\<lparr>geojson_url := GjNotJson\<rparr>)) \<noteq> [] \<and>
   serving (fst (startup (\<lambda>n. take n) length (example_world\<lparr>geojson_url := GjNotJson\<rparr>))) \<and>
   ''Error loading GeoJSON''
     \<in> set (stdout (snd (startup (\<lambda>n. take n) length (example_world\<lparr>geojson_url := GjNotJson\<rparr>)))) \<and>
   create_zone_lookup (Some [NoProperties]) = Inl KeyError \<and>
   fst (startup (\<lambda>n. take n) length (example_world\<lparr>geojson_url := GjBody [NoProperties]\<rparr>)) =
     Crashed KeyError"
proof -
  let ?wp = "example_world\<lparr>parquet_url := (\<lambda>_. PqConnectionError)\<rparr>"
  let ?wg = "example_world\<lparr>geojson_url := GjNotJson\<rparr>"
  let ?wc = "example_world\<lparr>geojson_url := GjBody [NoProperties]\<rparr>"
  have 1: "\<forall>d. cache_files ?wp (2023, 1, 50000) \<noteq> Some (Pickle d)"
    by (simp add: example_world_def)
  have 2: "parquet_load_fails ?wp 2023 1"
    by (simp add: parquet_load_fails_def example_world_def)
  have 3: "\<forall>d. cache_files ?wg (2023, 1, 50000) \<noteq> Some (Pickle d)"
    by (simp add: example_world_def)
  have 4: "\<forall>fs. geojson_url ?wg \<noteq> GjBody fs"
    by simp
  have 5: "fst (load_taxi_data 2023 1 50000 (\<lambda>n. take n) ?wg) \<noteq> []"
    by (simp add: example_world_taxi example_clean_nonempty)
  have 6: "\<forall>d. cache_files ?wc (2023, 1, 50000) \<noteq> Some (Pickle d)"
    by (simp add: example_world_def)
  have 7: "geojson_url ?wc = GjBody [NoProperties]"
    by simp
  have 8: "create_zone_lookup (Some [NoProperties]) = Inl KeyError"
    by (simp add: create_zone_lookup_def)
  have 9: "fst (load_taxi_data 2023 1 50000 (\<lambda>n. take n) ?wc) \<noteq> []"
    by (simp add: example_world_taxi example_clean_nonempty)
  from parquet_failure_aborts[of ?wp "\<lambda>n. take n" length] 1 2
  have a: "fst (startup (\<lambda>n. take n) length ?wp) = Exited 1" by blast
  from parquet_failure_aborts[of ?wg "\<lambda>n. take n" length] 3 4 5
  have b: "serving (fst (startup (\<lambda>n. take n) length ?wg))"
    "''Error loading GeoJSON'' \<in> set (stdout (snd (startup (\<lambda>n. take n) length ?wg)))"
    by blast+
  from parquet_failure_aborts[of ?wc "\<lambda>n. take n" length "[NoProperties]" KeyError] 6 7 8 9
  have c: "fst (startup (\<lambda>n. take n) length ?wc) = Crashed KeyError" by blast
  from 2 a 5 b 8 c show ?thesis by blast
qed

text \<open>A zone whose name is null in the zone file: the row that hits it has a null pickup zone.\<close>

theorem null_zone_name_counterexample:
  "create_zone_lookup
     (Some [Properties [''zone_id'' \<mapsto> JInt 161, ''zone_name'' \<mapsto> JNull,
                        ''borough'' \<mapsto> JStr ''Manhattan'']]) =
     Inr [JInt 161 \<mapsto> [''zone_name'' \<mapsto> JNull, ''borough'' \<mapsto> JStr ''Manhattan'']] \<and>
   pickup_zone
     (hd (enrich_taxi_data_with_zones (clean_taxi_data example_raw)
            [JInt 161 \<mapsto> [''zone_name'' \<mapsto> JNull, ''borough'' \<mapsto> JStr ''Manhattan'']])) = JNull"
proof -
  have 1: "create_zone_lookup
     (Some [Properties [''zone_id'' \<mapsto> JInt 161, ''zone_name'' \<mapsto> JNull,
                        ''borough'' \<mapsto> JStr ''Manhattan'']]) =
     Inr [JInt 161 \<mapsto> [''zone_name'' \<mapsto> JNull, ''borough'' \<mapsto> JStr ''Manhattan'']]"
    by (simp add: create_zone_lookup_def dict_get_def)
  have "hd (enrich_taxi_data_with_zones (clean_taxi_data example_raw) zl) =
        enrich_row zl (hd (clean_taxi_data example_raw))" for zl
    using example_clean_nonempty by (simp add: enrich_taxi_data_with_zones_def hd_map)
  then have 2: "pickup_zone
     (hd (enrich_taxi_data_with_zones (clean_taxi_data example_raw)
            [JInt 161 \<mapsto> [''zone_name'' \<mapsto> JNull, ''borough'' \<mapsto> JStr ''Manhattan'']])) = JNull"
    by (simp add: enrich_row_zones example_row_location zone_field_def dict_get_def)
  from 1 2 show ?thesis by (rule conjI)
qed

lemma example_features_lookup:
  "create_zone_lookup (Some example_features) =
     Inr [JInt 132 \<mapsto> [''zone_name'' \<mapsto> JStr ''JFK Airport'', ''borough'' \<mapsto> JStr ''Queens'']]"
  by (simp add: create_zone_lookup_def example_features_def dict_get_def)

theorem cache_read_failure_falls_back_witness:
  "cache_files (example_world\<lparr>cache_files := (\<lambda>_. Some NotPickle)\<rparr>) (2023, 1, 50000) = Some NotPickle \<and>
   source_table (example_world\<lparr>cache_files := (\<lambda>_. Some NotPickle)\<rparr>) 2023 1 = Some example_raw \<and>
   requests (snd (load_all_data 2023 1 50000 True (\<lambda>n. take n) length
                    (example_world\<lparr>cache_files := (\<lambda>_. Some NotPickle)\<rparr>))) =
     [ParquetUrl 2023 1, GeoJsonUrl] \<and>
   raw_files (snd (load_all_data 2023 1 50000 True (\<lambda>n. take n) length
                    (example_world\<lparr>cache_files := (\<lambda>_. Some NotPickle)\<rparr>))) (2023, 1) =
     Some (Parquet example_raw) \<and>
   loaded (fst (load_all_data 2023 1 50000 True (\<lambda>n. take n) length
                 (example_world\<lparr>cache_files := (\<lambda>_. Some NotPickle)\<rparr>))) \<and>
   fst (load_all_data 2023 1 50000 True (\<lambda>n. take n) length
          (example_world\<lparr>cache_files := (\<lambda>_. Some NotPickle), cache_writable := False\<rparr>)) =
   fst (load_all_data 2023 1 50000 True (\<lambda>n. take n) length
          (example_world\<lparr>cache_files := (\<lambda>_. Some NotPickle), cache_writable := True\<rparr>))"
proof -
  let ?w = "example_world\<lparr>cache_files := (\<lambda>_. Some NotPickle)\<rparr>"
  let ?L = "load_all_data 2023 1 50000 True (\<lambda>n. take n) length ?w"
  have h: "cache_files ?w (2023, 1, 50000) = Some NotPickle"
    by simp
  have s: "source_table ?w 2023 1 = Some example_raw"
    by (simp add: source_table_def example_world_def)
  have g: "geojson_url example_world = GjBody example_features"
    "raw_files example_world (2023, 1) = None" "requests example_world = []"
    by (simp_all add: example_world_def)
  note t = cache_read_failure_falls_back[OF h, of True "\<lambda>n. take n" length]
  from t have t3: "fst (load_all_data 2023 1 50000 True (\<lambda>n. take n) length (?w\<lparr>cache_writable := False\<rparr>)) =
      fst (load_all_data 2023 1 50000 True (\<lambda>n. take n) length (?w\<lparr>cache_writable := True\<rparr>))"
    by (rule conjunct1[OF conjunct2[OF conjunct2]])
  note t5' = conjunct1[OF conjunct2[OF conjunct2[OF conjunct2[OF conjunct2[OF t]]]]]
  from t5' have t5: "requests (snd ?L) = [ParquetUrl 2023 1, GeoJsonUrl] \<and>
      (\<exists>merged. fst ?L = Inr (Some \<lparr>raw = merged, geojson = Some example_features,
          zone_lookup = [JInt 132 \<mapsto> [''zone_name'' \<mapsto> JStr ''JFK Airport'',
                                         ''borough'' \<mapsto> JStr ''Queens'']],
          aggregations = length merged\<rparr>))"
    by (simp add: s g example_raw_length example_clean_nonempty example_features_lookup Let_def) blast
  from t s have t6: "raw_files (snd ?L) (2023, 1) = Some (Parquet example_raw)"
    by blast
  from t5 have l: "loaded (fst ?L)"
    by (auto simp: loaded_def)
  from h s t5 t6 l t3 show ?thesis by blast
qed

lemma example_row_location2: "PULocationID (clean_taxi_data example_raw ! 1) = 132"
  by code_simp

lemma example_clean_length: "length (clean_taxi_data example_raw) = 3"
  by code_simp

theorem lookup_misses_fall_back_witness:
  "payment_type (example_raw ! 3) \<notin> {Some 1, Some 2, Some 3, Some 4, Some 5} \<and>
   payment_type_name (add_features (example_raw ! 3)) = Some ''Unknown'' \<and>
   hd (clean_taxi_data example_raw) \<in> set (clean_taxi_data example_raw) \<and>
   payment_type_name (hd (clean_taxi_data example_raw)) \<noteq> None \<and>
   [JInt 132 \<mapsto> [''zone_name'' \<mapsto> JStr ''JFK Airport'', ''borough'' \<mapsto> JStr ''Queens'']]
     (JInt (PULocationID (hd (clean_taxi_data example_raw)))) = None \<and>
   pickup_zone (enrich_row
       [JInt 132 \<mapsto> [''zone_name'' \<mapsto> JStr ''JFK Airport'', ''borough'' \<mapsto> JStr ''Queens'']]
       (hd (clean_taxi_data example_raw))) = JStr ''Unknown'' \<and>
   pickup_zone (enrich_row
       [JInt 132 \<mapsto> [''zone_name'' \<mapsto> JStr ''JFK Airport'', ''borough'' \<mapsto> JStr ''Queens'']]
       (clean_taxi_data example_raw ! 1)) = JStr ''JFK Airport'' \<and>
   enrich_row
       [JInt 132 \<mapsto> [''zone_name'' \<mapsto> JStr ''JFK Airport'', ''borough'' \<mapsto> JStr ''Queens'']]
       (clean_taxi_data example_raw ! 1)
     \<in> set (enrich_taxi_data_with_zones (clean_taxi_data example_raw)
          [JInt 132 \<mapsto> [''zone_name'' \<mapsto> JStr ''JFK Airport'', ''borough'' \<mapsto> JStr ''Queens'']]) \<and>
   pickup_borough (enrich_row
       [JInt 132 \<mapsto> [''zone_name'' \<mapsto> JStr ''JFK Airport'', ''borough'' \<mapsto> JStr ''Queens'']]
       (clean_taxi_data example_raw ! 1)) \<noteq> JNull \<and>
   create_zone_lookup (Some example_features) =
     Inr [JInt 132 \<mapsto> [''zone_name'' \<mapsto> JStr ''JFK Airport'', ''borough'' \<mapsto> JStr ''Queens'']] \<and>
   dropoff_borough (enrich_row
       [JInt 132 \<mapsto> [''zone_name'' \<mapsto> JStr ''JFK Airport'', ''borough'' \<mapsto> JStr ''Queens'']]
       (clean_taxi_data example_raw ! 1)) \<noteq> JNull"
proof -
  let ?e = "[''zone_name'' \<mapsto> JStr ''JFK Airport'', ''borough'' \<mapsto> JStr ''Queens'']"
  let ?zl = "[JInt 132 \<mapsto> ?e]"
  let ?c = "hd (clean_taxi_data example_raw)"
  let ?c1 = "clean_taxi_data example_raw ! 1"
  have 1: "payment_type (example_raw ! 3) \<notin> {Some 1, Some 2, Some 3, Some 4, Some 5}"
    by (simp add: example_row_payment)
  have 2: "?c \<in> set (clean_taxi_data example_raw)"
    using example_clean_nonempty by simp
  have 3: "?zl (JInt (PULocationID ?c)) = None"
    by (simp add: example_row_location)
  have 4: "?zl (JInt (PULocationID ?c1)) = Some ?e"
    using example_row_location2 by simp
  have 5: "\<forall>k e. ?zl k = Some e \<longrightarrow> e ''zone_name'' \<noteq> Some JNull \<and> e ''borough'' \<noteq> Some JNull"
    by (auto split: if_splits)
  have "?c1 \<in> set (clean_taxi_data example_raw)"
    by (simp add: example_clean_length)
  then have 6: "enrich_row ?zl ?c1 \<in> set (enrich_taxi_data_with_zones (clean_taxi_data example_raw) ?zl)"
    by (simp add: enrich_taxi_data_with_zones_def)
  note t = lookup_misses_fall_back[of "example_raw ! 3" example_raw ?zl ?c ?e
      "clean_taxi_data example_raw"]
  note t1 = lookup_misses_fall_back[of "example_raw ! 3" example_raw ?zl ?c1 ?e
      "clean_taxi_data example_raw"]
  from t 1 have a: "payment_type_name (add_features (example_raw ! 3)) = Some ''Unknown''"
    by blast
  from t 2 have b: "payment_type_name ?c \<noteq> None"
    by blast
  from t 3 have c: "pickup_zone (enrich_row ?zl ?c) = JStr ''Unknown''"
    by blast
  from t1 4 have "pickup_zone (enrich_row ?zl ?c1) = dict_get ?e ''zone_name'' (JStr ''Unknown'')"
    by blast
  then have d: "pickup_zone (enrich_row ?zl ?c1) = JStr ''JFK Airport''"
    by (simp add: dict_get_def)
  from t 5 6 have e: "pickup_borough (enrich_row ?zl ?c1) \<noteq> JNull"
    by blast
  have 7: "create_zone_lookup (Some example_features) = Inr ?zl"
    by (rule example_features_lookup)
  have 8: "\<forall>props. Properties props \<in> set example_features \<longrightarrow>
             props ''zone_name'' \<noteq> Some JNull \<and> props ''borough'' \<noteq> Some JNull"
    by (simp add: example_features_def)
  note t2 = lookup_misses_fall_back[of "example_raw ! 3" example_raw ?zl ?c1 ?e
      "clean_taxi_data example_raw" example_features]
  from t2 7 8 6 have f: "dropoff_borough (enrich_row ?zl ?c1) \<noteq> JNull"
    by blast
  from 1 a 2 b 3 c d 6 e 7 f show ?thesis by blast
qed

end
